theory Spec2Isabelle
  imports Main "HOL-Library.Word"
begin

section \<open>Values shared by the backend and the request handlers\<close>

text \<open>
  Node ids and operation ids are \<open>np.uint64\<close> (\<open>basetypes.NODE_ID\<close>). Coordinates are
  rows of integer arrays (\<open>basetypes.COORDINATES\<close>). Edge affinities are \<open>np.float32\<close>
  values that the code only carries around; they are kept as their 32-bit patterns.
  A \<open>datetime\<close> is an integer count of microseconds.
\<close>

type_synonym node_id = "64 word"
type_synonym operation_id = "64 word"
type_synonym coordinate = "int list"
type_synonym affinity = "32 word"
type_synonym timestamp = int
type_synonym edge = "node_id \<times> node_id"

text \<open>
  The exceptions the modelled code raises or lets through, by class. The message text
  of an exception is not modelled. \<open>ExternalError\<close> stands for any other exception an
  external collaborator (store, message bus) raises.
\<close>

datatype error =
    PreconditionError
  | PostconditionError
  | LockingError
  | BadRequest
  | InternalServerError
  | TypeError
  | NameError
  | KeyError
  | IndexError
  | AssertionError
  | AttributeError
  | ExternalError

section \<open>backend/graphoperation.py\<close>

subsection \<open>Log columns and row mutations\<close>

text \<open>
  The columns of an operation-log row (\<open>column_keys.OperationLogs\<close>). A log record is
  a dictionary from columns to cells; a field is \<open>None\<close> when the column is not a key of
  the dictionary and \<open>Some v\<close> when it is, \<open>v\<close> being the value of its newest cell
  (\<open>log_record[column][0].value\<close>). The same record type is the \<open>val_dict\<close> that
  \<open>create_log_record\<close> hands to \<open>mutate_row\<close>.
\<close>

record log_columns =
  UserID :: "string option"
  RootID :: "node_id list option"
  SourceID :: "node_id list option"
  SinkID :: "node_id list option"
  SourceCoordinate :: "coordinate list option"
  SinkCoordinate :: "coordinate list option"
  AddedEdge :: "edge list option"
  RemovedEdge :: "edge list option"
  Affinity :: "affinity list option"
  BoundingBoxOffset :: "coordinate option"

definition no_columns :: log_columns where
  "no_columns = \<lparr>UserID = None, RootID = None, SourceID = None, SinkID = None,
     SourceCoordinate = None, SinkCoordinate = None, AddedEdge = None,
     RemovedEdge = None, Affinity = None, BoundingBoxOffset = None\<rparr>"

text \<open>
  A pending row mutation, as \<open>cg.mutate_row(row_key, val_dict, timestamp)\<close> returns it.
  The rows the edit engine returns write hierarchy columns, which stay opaque here.
\<close>

datatype cells = LogCells log_columns | HierarchyCells "(string \<times> node_id list) list"

record mutation =
  row_key :: "8 word list"
  row_cells :: cells
  time_stamp :: timestamp

text \<open>
  Modelled from the spec: \<open>serializers.serialize_uint64\<close> is not among the sources; the
  spec (section 6) gives row keys as the big-endian bytes of the 64-bit id.
\<close>

definition serialize_uint64 :: "64 word \<Rightarrow> 8 word list" where
  "serialize_uint64 w = map (\<lambda>i. ucast (drop_bit (8 * (7 - i)) w)) [0..<8]"

text \<open>
  Modelled from the spec: \<open>ChunkedGraph.mutate_row\<close> is not among the sources; the spec
  (section 4.2) has it return a pending mutation of the given row, columns and timestamp.
\<close>

definition mutate_row :: "8 word list \<Rightarrow> log_columns \<Rightarrow> timestamp \<Rightarrow> mutation" where
  "mutate_row key val_dict ts = \<lparr>row_key = key, row_cells = LogCells val_dict, time_stamp = ts\<rparr>"

subsection \<open>The external world\<close>

text \<open>
  Everything the operations do to the outside is recorded as an event, in the order it
  happens: entering and leaving a \<open>RootLock\<close> block, and a \<open>bulk_write\<close> call with its
  rows, the lock keys it is conditioned on, the operation id and \<open>slow_retry\<close>.
\<close>

datatype event =
    RootLockEnter "node_id list" operation_id
  | RootLockExit "node_id list" operation_id
  | BulkWrite "mutation list" "node_id list" operation_id bool

record root_lock =
  operation_id :: operation_id
  locked_root_ids :: "node_id list"

text \<open>
  The \<open>ChunkedGraph\<close> object and \<open>RootLock\<close> are not among the sources. They are
  parameters: each call's outcome is a function of the events so far and the
  arguments, and may be an exception. Of the module \<open>chunkedgraph_edits\<close>, which is
  not among the sources either, the parameters \<open>add_edges_changes\<close> and
  \<open>remove_edges_changes\<close> give what an edit decides: the new root ids, the new level-2
  ids, and the key and cells of every hierarchy row it changes.
\<close>

type_synonym row_change = "8 word list \<times> cells"

record chunked_graph =
  get_chunk_layer :: "node_id \<Rightarrow> nat"
  get_roots :: "event list \<Rightarrow> node_id list \<Rightarrow> error + node_id list"
  RootLock :: "event list \<Rightarrow> node_id list \<Rightarrow> error + root_lock"
  read_consolidated_lock_timestamp ::
    "event list \<Rightarrow> node_id list \<Rightarrow> operation_id list \<Rightarrow> error + timestamp"
  run_multicut ::
    "event list \<Rightarrow> node_id list option \<Rightarrow> node_id list option \<Rightarrow> coordinate list option \<Rightarrow>
     coordinate list option \<Rightarrow> coordinate option \<Rightarrow> error + edge list"
  add_edges_changes ::
    "event list \<Rightarrow> operation_id \<Rightarrow> edge list \<Rightarrow> timestamp \<Rightarrow> affinity list option \<Rightarrow>
     error + (node_id list \<times> node_id list \<times> row_change list)"
  remove_edges_changes ::
    "event list \<Rightarrow> operation_id \<Rightarrow> edge list \<Rightarrow> timestamp \<Rightarrow>
     error + (node_id list \<times> node_id list \<times> row_change list)"
  bulk_write ::
    "event list \<Rightarrow> mutation list \<Rightarrow> node_id list \<Rightarrow> operation_id \<Rightarrow> bool \<Rightarrow> error + unit"

text \<open>
  Modelled from the spec: \<open>cg_edits.add_edges\<close> and \<open>cg_edits.remove_edges\<close> are not
  among the sources. The spec (section 4.4, and step 7 of section 4.5) has every
  mutation an edit emits stamped with the lock timestamp of the edit: each row the
  engine changes is returned as a mutation at the \<open>time_stamp\<close> the function was
  called with.
\<close>

definition stamp_rows :: "timestamp \<Rightarrow> row_change list \<Rightarrow> mutation list" where
  "stamp_rows ts changes =
     map (\<lambda>change. \<lparr>row_key = fst change, row_cells = snd change, time_stamp = ts\<rparr>) changes"

definition cg_edits_add_edges ::
  "chunked_graph \<Rightarrow> event list \<Rightarrow> operation_id \<Rightarrow> edge list \<Rightarrow> timestamp \<Rightarrow>
   affinity list option \<Rightarrow> error + (node_id list \<times> node_id list \<times> mutation list)" where
  "cg_edits_add_edges cg tr opid atomic_edges ts affinities =
     (case add_edges_changes cg tr opid atomic_edges ts affinities of
        Inl e \<Rightarrow> Inl e
      | Inr (root_ids, lvl2_ids, changes) \<Rightarrow> Inr (root_ids, lvl2_ids, stamp_rows ts changes))"

definition cg_edits_remove_edges ::
  "chunked_graph \<Rightarrow> event list \<Rightarrow> operation_id \<Rightarrow> edge list \<Rightarrow> timestamp \<Rightarrow>
   error + (node_id list \<times> node_id list \<times> mutation list)" where
  "cg_edits_remove_edges cg tr opid atomic_edges ts =
     (case remove_edges_changes cg tr opid atomic_edges ts of
        Inl e \<Rightarrow> Inl e
      | Inr (root_ids, lvl2_ids, changes) \<Rightarrow> Inr (root_ids, lvl2_ids, stamp_rows ts changes))"

subsection \<open>Operations and their constructors\<close>

text \<open>The slots of \<open>GraphEditOperation\<close> (the graph handle is passed separately).\<close>

record graph_edit_operation =
  user_id :: string
  source_ids :: "node_id list option"
  sink_ids :: "node_id list option"
  source_coords :: "coordinate list option"
  sink_coords :: "coordinate list option"

text \<open>
  The three subclasses with their own slots: \<open>added_edges\<close> and \<open>affinities\<close>;
  \<open>removed_edges\<close>; \<open>removed_edges\<close> (unset until \<open>apply\<close> runs) and \<open>bbox_offset\<close>.
  An edge array of shape (n, 2) is a list of pairs.
\<close>

datatype edit_operation =
    MergeOperation graph_edit_operation "edge list" "affinity list option"
  | SplitOperation graph_edit_operation "edge list"
  | MulticutOperation graph_edit_operation "edge list option" "coordinate option"

text \<open>The loops of lines 53-65: the first id that is not on layer 1 raises.\<close>

fun check_supervoxels :: "chunked_graph \<Rightarrow> node_id list \<Rightarrow> error + unit" where
  "check_supervoxels cg [] = Inr ()"
| "check_supervoxels cg (sv # svs) =
     (if get_chunk_layer cg sv \<noteq> 1 then Inl PreconditionError else check_supervoxels cg svs)"

text \<open>
  \<open>GraphEditOperation.__init__\<close>. The checks run only when both id lists are given;
  \<open>np.any(np.in1d(sink_ids, source_ids))\<close> asks whether some sink id is a source id.
\<close>

definition GraphEditOperation_init ::
  "chunked_graph \<Rightarrow> string \<Rightarrow> node_id list option \<Rightarrow> node_id list option \<Rightarrow>
   coordinate list option \<Rightarrow> coordinate list option \<Rightarrow> error + graph_edit_operation" where
  "GraphEditOperation_init cg uid src snk src_coords snk_coords =
     (let self = \<lparr>user_id = uid, source_ids = src, sink_ids = snk,
                  source_coords = src_coords, sink_coords = snk_coords\<rparr>
      in case (snk, src) of
           (Some sinks, Some sources) \<Rightarrow>
             if list_ex (\<lambda>s. s \<in> set sources) sinks then Inl PreconditionError
             else (case check_supervoxels cg sources of
                     Inl e \<Rightarrow> Inl e
                   | Inr _ \<Rightarrow>
                       (case check_supervoxels cg sinks of
                          Inl e \<Rightarrow> Inl e
                        | Inr _ \<Rightarrow> Inr self))
         | _ \<Rightarrow> Inr self)"

text \<open>
  \<open>MergeOperation.__init__\<close>: the sources and sinks are the two columns of
  \<open>added_edges\<close> (\<open>added_edges.transpose()\<close>).
\<close>

definition MergeOperation_init ::
  "chunked_graph \<Rightarrow> string \<Rightarrow> edge list \<Rightarrow> coordinate list option \<Rightarrow>
   coordinate list option \<Rightarrow> affinity list option \<Rightarrow> error + edit_operation" where
  "MergeOperation_init cg uid added_edges src_coords snk_coords affinities =
     (case GraphEditOperation_init cg uid (Some (map fst added_edges))
             (Some (map snd added_edges)) src_coords snk_coords of
        Inl e \<Rightarrow> Inl e
      | Inr self \<Rightarrow> Inr (MergeOperation self added_edges affinities))"

definition SplitOperation_init ::
  "chunked_graph \<Rightarrow> string \<Rightarrow> edge list \<Rightarrow> coordinate list option \<Rightarrow>
   coordinate list option \<Rightarrow> error + edit_operation" where
  "SplitOperation_init cg uid removed_edges src_coords snk_coords =
     (case GraphEditOperation_init cg uid (Some (map fst removed_edges))
             (Some (map snd removed_edges)) src_coords snk_coords of
        Inl e \<Rightarrow> Inl e
      | Inr self \<Rightarrow> Inr (SplitOperation self removed_edges))"

text \<open>
  \<open>MulticutOperation.__init__\<close>: ids and coordinates are required arguments;
  \<open>removed_edges\<close> starts as \<open>None\<close>.
\<close>

definition MulticutOperation_init ::
  "chunked_graph \<Rightarrow> string \<Rightarrow> node_id list \<Rightarrow> node_id list \<Rightarrow>
   coordinate list \<Rightarrow> coordinate list \<Rightarrow> coordinate option \<Rightarrow> error + edit_operation" where
  "MulticutOperation_init cg uid src snk src_coords snk_coords bbox_offset =
     (case GraphEditOperation_init cg uid (Some src) (Some snk)
             (Some src_coords) (Some snk_coords) of
        Inl e \<Rightarrow> Inl e
      | Inr self \<Rightarrow> Inr (MulticutOperation self None bbox_offset))"

subsection \<open>Log records\<close>

text \<open>
  The \<open>val_dict\<close> each \<open>create_log_record\<close> builds. For a merge and a split the
  optional attributes become columns only when they are not \<open>None\<close>. For a multicut
  the ids and coordinates are always keys of the dictionary; its constructor requires
  them, and the columns below are the code's for every multicut that has them. (For a
  multicut object without them the code stores the key with the value \<open>None\<close>, which a
  column of this record cannot hold; such a key is left out here.)
\<close>

fun log_val_dict :: "edit_operation \<Rightarrow> node_id list \<Rightarrow> log_columns" where
  "log_val_dict (MergeOperation self added_edges affinities) root_ids =
     no_columns\<lparr>UserID := Some (user_id self), RootID := Some root_ids,
       AddedEdge := Some added_edges, SourceCoordinate := source_coords self,
       SinkCoordinate := sink_coords self, Affinity := affinities\<rparr>"
| "log_val_dict (SplitOperation self removed_edges) root_ids =
     no_columns\<lparr>UserID := Some (user_id self), RootID := Some root_ids,
       RemovedEdge := Some removed_edges, SourceCoordinate := source_coords self,
       SinkCoordinate := sink_coords self\<rparr>"
| "log_val_dict (MulticutOperation self removed_edges bbox_offset) root_ids =
     no_columns\<lparr>UserID := Some (user_id self), RootID := Some root_ids,
       SourceCoordinate := source_coords self, SinkCoordinate := sink_coords self,
       SourceID := source_ids self, SinkID := sink_ids self,
       BoundingBoxOffset := bbox_offset\<rparr>"

definition create_log_record ::
  "edit_operation \<Rightarrow> operation_id \<Rightarrow> timestamp \<Rightarrow> node_id list \<Rightarrow> mutation" where
  "create_log_record self opid ts root_ids =
     mutate_row (serialize_uint64 opid) (log_val_dict self root_ids) ts"

text \<open>
  \<open>GraphEditOperation.from_log_record\<close>. Lines 74-78 index the record with five
  columns before any test, and the merge branch indexes \<open>Affinity\<close>: a column that is
  not a key raises \<open>KeyError\<close>.
\<close>

definition log_column :: "'a option \<Rightarrow> error + 'a" where
  "log_column c = (case c of None \<Rightarrow> Inl KeyError | Some v \<Rightarrow> Inr v)"

definition from_log_record ::
  "chunked_graph \<Rightarrow> log_columns \<Rightarrow> bool \<Rightarrow> error + edit_operation" where
  "from_log_record cg log_record multicut_as_split =
     (case log_column (UserID log_record) of Inl e \<Rightarrow> Inl e | Inr uid \<Rightarrow>
     (case log_column (SourceID log_record) of Inl e \<Rightarrow> Inl e | Inr src \<Rightarrow>
     (case log_column (SinkID log_record) of Inl e \<Rightarrow> Inl e | Inr snk \<Rightarrow>
     (case log_column (SourceCoordinate log_record) of Inl e \<Rightarrow> Inl e | Inr src_coords \<Rightarrow>
     (case log_column (SinkCoordinate log_record) of Inl e \<Rightarrow> Inl e | Inr snk_coords \<Rightarrow>
     (case AddedEdge log_record of
        Some added_edges \<Rightarrow>
          (case log_column (Affinity log_record) of
             Inl e \<Rightarrow> Inl e
           | Inr affinities \<Rightarrow>
               MergeOperation_init cg uid added_edges (Some src_coords) (Some snk_coords)
                 (Some affinities))
      | None \<Rightarrow>
          (case RemovedEdge log_record of
             Some removed_edges \<Rightarrow>
               (if multicut_as_split \<or> BoundingBoxOffset log_record = None
                then SplitOperation_init cg uid removed_edges (Some src_coords)
                       (Some snk_coords)
                else (case log_column (BoundingBoxOffset log_record) of
                        Inl e \<Rightarrow> Inl e
                      | Inr bbox_offset \<Rightarrow>
                          MulticutOperation_init cg uid src snk src_coords snk_coords
                            (Some bbox_offset)))
           | None \<Rightarrow> Inl PreconditionError)))))))"

subsection \<open>Applying an operation\<close>

text \<open>\<open>np.unique\<close>: the distinct values in ascending order.\<close>

definition np_unique :: "node_id list \<Rightarrow> node_id list" where
  "np_unique xs = sort (remdups xs)"

text \<open>\<open>edges.ravel()\<close>: the (n, 2) array flattened row by row.\<close>

definition ravel :: "edge list \<Rightarrow> node_id list" where
  "ravel edges = concat (map (\<lambda>e. [fst e, snd e]) edges)"

text \<open>
  \<open>with RootLock(cg, root_ids) as root_lock:\<close> the block runs only when the lock was
  acquired, and the lock is left on every way out of the block.
\<close>

definition with_RootLock ::
  "chunked_graph \<Rightarrow> node_id list \<Rightarrow>
   (root_lock \<Rightarrow> event list \<Rightarrow> (error + 'a) \<times> event list) \<Rightarrow>
   event list \<Rightarrow> (error + 'a) \<times> event list" where
  "with_RootLock cg root_ids block tr =
     (case RootLock cg tr root_ids of
        Inl e \<Rightarrow> (Inl e, tr)
      | Inr lk \<Rightarrow>
          (case block lk (tr @ [RootLockEnter (locked_root_ids lk) (operation_id lk)]) of
             (res, tr') \<Rightarrow>
               (res, tr' @ [RootLockExit (locked_root_ids lk) (operation_id lk)])))"

text \<open>
  The first statements of each block: one operation id per locked root, and the
  consolidated lock timestamp read back for them.
\<close>

definition lock_timestamp :: "chunked_graph \<Rightarrow> root_lock \<Rightarrow> event list \<Rightarrow> error + timestamp" where
  "lock_timestamp cg lk tr =
     read_consolidated_lock_timestamp cg tr (locked_root_ids lk)
       (replicate (length (locked_root_ids lk)) (operation_id lk))"

text \<open>
  The last statements of each block: the log row is built, put first, and the rows go
  to \<open>bulk_write\<close> with the locked roots, the operation id and \<open>slow_retry=False\<close>.
\<close>

definition write_rows ::
  "chunked_graph \<Rightarrow> edit_operation \<Rightarrow> root_lock \<Rightarrow> timestamp \<Rightarrow> node_id list \<Rightarrow>
   node_id list \<Rightarrow> mutation list \<Rightarrow> event list \<Rightarrow>
   (error + node_id list \<times> node_id list) \<times> event list" where
  "write_rows cg self lk ts new_root_ids new_lvl2_ids rows tr =
     (let log_row = create_log_record self (operation_id lk) ts new_root_ids;
          rows' = log_row # rows;
          tr' = tr @ [BulkWrite rows' (locked_root_ids lk) (operation_id lk) False]
      in case bulk_write cg tr rows' (locked_root_ids lk) (operation_id lk) False of
           Inl e \<Rightarrow> (Inl e, tr')
         | Inr _ \<Rightarrow> (Inr (new_root_ids, new_lvl2_ids), tr'))"

text \<open>
  \<open>[sid for l in (self.source_ids, self.sink_ids) for sid in l]\<close>: iterating \<open>None\<close>
  raises \<open>TypeError\<close>.
\<close>

definition source_and_sink_ids :: "graph_edit_operation \<Rightarrow> error + node_id list" where
  "source_and_sink_ids self =
     (case (source_ids self, sink_ids self) of
        (Some src, Some snk) \<Rightarrow> Inr (src @ snk)
      | _ \<Rightarrow> Inl TypeError)"

text \<open>The blocks under \<open>with RootLock\<close> of the three \<open>apply\<close> methods.\<close>

definition merge_block ::
  "chunked_graph \<Rightarrow> graph_edit_operation \<Rightarrow> edge list \<Rightarrow> affinity list option \<Rightarrow>
   root_lock \<Rightarrow> event list \<Rightarrow> (error + node_id list \<times> node_id list) \<times> event list" where
  "merge_block cg self added_edges affinities lk tr =
     (case lock_timestamp cg lk tr of
        Inl e \<Rightarrow> (Inl e, tr)
      | Inr ts \<Rightarrow>
          (case cg_edits_add_edges cg tr (operation_id lk) added_edges ts affinities of
             Inl e \<Rightarrow> (Inl e, tr)
           | Inr (root_ids, lvl2_ids, rows) \<Rightarrow>
               write_rows cg (MergeOperation self added_edges affinities) lk ts
                 root_ids lvl2_ids rows tr))"

definition split_block ::
  "chunked_graph \<Rightarrow> graph_edit_operation \<Rightarrow> edge list \<Rightarrow>
   root_lock \<Rightarrow> event list \<Rightarrow> (error + node_id list \<times> node_id list) \<times> event list" where
  "split_block cg self removed_edges lk tr =
     (case lock_timestamp cg lk tr of
        Inl e \<Rightarrow> (Inl e, tr)
      | Inr ts \<Rightarrow>
          (case cg_edits_remove_edges cg tr (operation_id lk) removed_edges ts of
             Inl e \<Rightarrow> (Inl e, tr)
           | Inr (root_ids, lvl2_ids, rows) \<Rightarrow>
               write_rows cg (SplitOperation self removed_edges) lk ts
                 root_ids lvl2_ids rows tr))"

text \<open>
  \<open>MulticutOperation.apply\<close> stores the computed edges in \<open>self.removed_edges\<close>;
  \<open>removed_edges.size\<close> counts the entries of the (n, 2) array.
\<close>

definition multicut_block ::
  "chunked_graph \<Rightarrow> graph_edit_operation \<Rightarrow> coordinate option \<Rightarrow>
   root_lock \<Rightarrow> event list \<Rightarrow> (error + node_id list \<times> node_id list) \<times> event list" where
  "multicut_block cg self bbox_offset lk tr =
     (case lock_timestamp cg lk tr of
        Inl e \<Rightarrow> (Inl e, tr)
      | Inr ts \<Rightarrow>
          (case run_multicut cg tr (source_ids self) (sink_ids self)
                  (source_coords self) (sink_coords self) bbox_offset of
             Inl e \<Rightarrow> (Inl e, tr)
           | Inr removed_edges \<Rightarrow>
               if 2 * length removed_edges = 0 then (Inl PostconditionError, tr)
               else
                 (case cg_edits_remove_edges cg tr (operation_id lk) removed_edges ts of
                    Inl e \<Rightarrow> (Inl e, tr)
                  | Inr (root_ids, lvl2_ids, rows) \<Rightarrow>
                      write_rows cg (MulticutOperation self (Some removed_edges) bbox_offset)
                        lk ts root_ids lvl2_ids rows tr)))"

text \<open>
  The three \<open>apply\<close> methods (\<open>apply\<close> is a reserved word here). The object
  \<open>MulticutOperation.apply\<close> has updated is not returned: nothing reads its
  \<open>removed_edges\<close> after \<open>apply\<close>.
\<close>

fun apply_operation ::
  "chunked_graph \<Rightarrow> edit_operation \<Rightarrow> event list \<Rightarrow>
   (error + node_id list \<times> node_id list) \<times> event list" where
  "apply_operation cg (MergeOperation self added_edges affinities) tr =
     (case get_roots cg tr (ravel added_edges) of
        Inl e \<Rightarrow> (Inl e, tr)
      | Inr roots \<Rightarrow>
          with_RootLock cg (np_unique roots) (merge_block cg self added_edges affinities) tr)"
| "apply_operation cg (SplitOperation self removed_edges) tr =
     (case source_and_sink_ids self of
        Inl e \<Rightarrow> (Inl e, tr)
      | Inr ids \<Rightarrow>
          (case get_roots cg tr ids of
             Inl e \<Rightarrow> (Inl e, tr)
           | Inr roots \<Rightarrow>
               if length (np_unique roots) > 1 then (Inl PreconditionError, tr)
               else with_RootLock cg (np_unique roots) (split_block cg self removed_edges) tr))"
| "apply_operation cg (MulticutOperation self unset bbox_offset) tr =
     (case source_and_sink_ids self of
        Inl e \<Rightarrow> (Inl e, tr)
      | Inr ids \<Rightarrow>
          (case get_roots cg tr ids of
             Inl e \<Rightarrow> (Inl e, tr)
           | Inr roots \<Rightarrow>
               if length (np_unique roots) > 1 then (Inl PreconditionError, tr)
               else with_RootLock cg (np_unique roots) (multicut_block cg self bbox_offset) tr))"

section \<open>app/app_utils.py\<close>

text \<open>
  The request handlers use the \<open>ChunkedGraph\<close> of \<open>pychunkedgraph.graph\<close>, whose code is
  not among the sources. Its edit methods return an object with \<open>new_root_ids\<close> (which
  may be \<open>None\<close>) and \<open>new_lvl2_ids\<close>.
\<close>

record edit_result =
  new_root_ids :: "node_id list option"
  new_lvl2_ids :: "node_id list"

text \<open>
  \<open>np.array(node[1:]) / cg.segmentation_resolution\<close> is a float64 array that the
  handlers only pass on; it is kept as the pair of its operands.
\<close>

type_synonym scaled_coordinate = "int list \<times> int list"

text \<open>
  The four edit methods the handlers call, with their keyword arguments in the order
  of the source: \<open>add_edges\<close>, \<open>remove_edges\<close>, \<open>undo_operation\<close>, \<open>redo_operation\<close>.
\<close>

datatype edit_call =
    AddEdges string "node_id list" "scaled_coordinate list" "scaled_coordinate list" bool
  | RemoveEdges string "node_id list" "node_id list" "scaled_coordinate list"
      "scaled_coordinate list" bool
  | UndoOperation string operation_id
  | RedoOperation string operation_id

text \<open>
  What a handler does to the outside, in order: a call of an edit method, and a call of
  \<open>MessagingClient.publish\<close> with exchange, payload and attributes.
\<close>

datatype app_event =
    Edit edit_call
  | Publish string "8 word list" "(string \<times> string) list"

text \<open>
  Modelled from the spec: \<open>OperationLogs.StatusCodes\<close> is not among the sources; the
  spec (section 3) gives a log row a status that is SUCCESS or FAILED.
\<close>

datatype status_code = SUCCESS | FAILED

text \<open>
  One entry of \<open>cg.client.read_log_entries\<close>: the user, the timestamp, and the optional
  \<open>Status\<close>, \<open>UndoOperationID\<close> and \<open>RedoOperationID\<close> columns. The entries come as a
  dictionary keyed by operation id: the keys are the distinct first components, and
  \<open>map_of\<close> looks a key up.
\<close>

record log_entry =
  entry_user :: string
  entry_timestamp :: timestamp
  Status :: "status_code option"
  UndoOperationID :: "operation_id option"
  RedoOperationID :: "operation_id option"

type_synonym log_rows = "(operation_id \<times> log_entry) list"

record graph =
  segmentation_resolution :: "int list"
  get_chunk_coordinates :: "node_id \<Rightarrow> int list"
  run_edit :: "app_event list \<Rightarrow> edit_call \<Rightarrow> error + edit_result"
  read_log_entries :: "app_event list \<Rightarrow> timestamp \<Rightarrow> error + log_rows"

text \<open>
  The process around the handlers: the \<open>ChunkedGraph\<close> constructor, the environment
  variable naming the exchange, and the messaging client.
\<close>

record app =
  new_ChunkedGraph :: "string \<Rightarrow> error + graph"
  PYCHUNKEDGRAPH_EDITS_EXCHANGE :: "string option"
  messaging_publish ::
    "app_event list \<Rightarrow> string \<Rightarrow> 8 word list \<Rightarrow> (string \<times> string) list \<Rightarrow> error + unit"

text \<open>The mutable state: the module-level \<open>CACHE\<close> dictionary and the events so far.\<close>

record app_state =
  CACHE :: "(string \<times> graph) list"
  events :: "app_event list"

text \<open>
  Python binds the arguments of a call to the parameters of a \<open>def\<close> whose parameters
  are all plain and without defaults: too many positional arguments, a keyword that
  is no parameter, a parameter given twice or a parameter left unbound raise
  \<open>TypeError\<close>.
\<close>

datatype py_value = PyStr string | PyBool bool

definition bind_arguments ::
  "string list \<Rightarrow> py_value list \<Rightarrow> (string \<times> py_value) list \<Rightarrow>
   error + (string \<times> py_value) list" where
  "bind_arguments params args kwargs =
     (if length args > length params then Inl TypeError
      else if list_ex (\<lambda>kw. fst kw \<notin> set params) kwargs then Inl TypeError
      else if list_ex (\<lambda>kw. fst kw \<in> set (take (length args) params)) kwargs
        then Inl TypeError
      else if \<not> distinct (map fst kwargs) then Inl TypeError
      else if list_ex (\<lambda>p. p \<notin> set (take (length args) params @ map fst kwargs))
                params
        then Inl TypeError
      else Inr (zip params args @ kwargs))"

text \<open>\<open>def get_cg(table_id):\<close>\<close>

definition get_cg_params :: "string list" where
  "get_cg_params = [''table_id'']"

definition startswith :: "string \<Rightarrow> string \<Rightarrow> bool" where
  "startswith s p = (take (length p) s = p)"

text \<open>
  The body of \<open>get_cg\<close>: the assertion on the table name, the cache lookup, and on a
  miss the construction of the handle, which is stored in \<open>CACHE\<close>. The logger set-up
  has no effect on the result.
\<close>

definition get_cg_body :: "app \<Rightarrow> string \<Rightarrow> app_state \<Rightarrow> (error + graph) \<times> app_state" where
  "get_cg_body ap table_id st =
     (if \<not> (startswith table_id ''minnie'' \<or> startswith table_id ''pinky_'')
      then (Inl AssertionError, st)
      else case map_of (CACHE st) table_id of
             Some cg \<Rightarrow> (Inr cg, st)
           | None \<Rightarrow>
               (case new_ChunkedGraph ap table_id of
                  Inl e \<Rightarrow> (Inl e, st)
                | Inr cg \<Rightarrow> (Inr cg, st\<lparr>CACHE := (table_id, cg) # CACHE st\<rparr>)))"

text \<open>
  A call of \<open>get_cg\<close> with positional and keyword arguments. A \<open>table_id\<close> that is not
  a string has no \<open>startswith\<close>.
\<close>

definition get_cg ::
  "app \<Rightarrow> py_value list \<Rightarrow> (string \<times> py_value) list \<Rightarrow> app_state \<Rightarrow>
   (error + graph) \<times> app_state" where
  "get_cg ap args kwargs st =
     (case bind_arguments get_cg_params args kwargs of
        Inl e \<Rightarrow> (Inl e, st)
      | Inr bound \<Rightarrow>
          (case map_of bound ''table_id'' of
             Some (PyStr table_id) \<Rightarrow> get_cg_body ap table_id st
           | _ \<Rightarrow> (Inl AttributeError, st)))"

text \<open>
  \<open>common.py\<close> calls \<open>app_utils.handle_supervoxel_id_lookup(cg, coords, node_ids)\<close>, and
  \<open>app_utils.py\<close> defines no such function: looking the attribute up on the module
  raises \<open>AttributeError\<close>, whatever the arguments.
\<close>

definition handle_supervoxel_id_lookup ::
  "graph \<Rightarrow> scaled_coordinate list \<Rightarrow> node_id list \<Rightarrow> error + node_id list" where
  "handle_supervoxel_id_lookup cg coords node_ids = Inl AttributeError"

section \<open>app/segmentation/common.py\<close>

subsection \<open>Publishing an edit\<close>

text \<open>
  \<open>np.array(new_lvl2_ids, dtype=np.uint64).tobytes()\<close>: eight bytes per id, one id after
  the other, in the byte order of the spec's section 6 (little-endian).
\<close>

definition tobytes :: "node_id list \<Rightarrow> 8 word list" where
  "tobytes ids = concat (map (\<lambda>w. map (\<lambda>i. ucast (drop_bit (8 * i) w)) [0..<8]) ids)"

text \<open>
  \<open>publish_edit\<close>: nothing catches what the import, the client or \<open>publish\<close> raise.
  The parameter \<open>is_priority\<close> is not used in the body.
\<close>

definition publish_edit ::
  "app \<Rightarrow> string \<Rightarrow> node_id list \<Rightarrow> bool \<Rightarrow> app_state \<Rightarrow> (error + unit) \<times> app_state" where
  "publish_edit ap table_id lvl2_ids is_priority st =
     (let payload = tobytes lvl2_ids;
          attributes = [(''table_id'', table_id)];
          exchange = (case PYCHUNKEDGRAPH_EDITS_EXCHANGE ap of
                        None \<Rightarrow> ''pychunkedgraph'' | Some x \<Rightarrow> x);
          st' = st\<lparr>events := events st @ [Publish exchange payload attributes]\<rparr>
      in case messaging_publish ap (events st) exchange payload attributes of
           Inl e \<Rightarrow> (Inl e, st')
         | Inr _ \<Rightarrow> (Inr (), st'))"

text \<open>
  The tail shared by the edit handlers: when the edit returned new level-2 ids they are
  published, and then the edit's result is returned.
\<close>

definition publish_and_return ::
  "app \<Rightarrow> string \<Rightarrow> edit_result \<Rightarrow> bool \<Rightarrow> app_state \<Rightarrow> (error + edit_result) \<times> app_state" where
  "publish_and_return ap table_id ret is_priority st =
     (if length (new_lvl2_ids ret) > 0
      then (case publish_edit ap table_id (new_lvl2_ids ret) is_priority st of
              (Inl e, st') \<Rightarrow> (Inl e, st')
            | (Inr _, st') \<Rightarrow> (Inr ret, st'))
      else (Inr ret, st))"

subsection \<open>Merge and split\<close>

text \<open>
  \<open>except LockingError\<close> and \<open>except PreconditionError\<close> around \<open>cg.add_edges\<close> and
  \<open>cg.remove_edges\<close>.
\<close>

fun merge_split_error :: "error \<Rightarrow> error" where
  "merge_split_error LockingError = InternalServerError"
| "merge_split_error PreconditionError = BadRequest"
| "merge_split_error e = e"

text \<open>
  \<open>np.any(np.abs(chunk_coord_delta) > 3)\<close> on the difference of the two chunk
  coordinate arrays.
\<close>

definition chunk_coord_delta :: "graph \<Rightarrow> node_id \<Rightarrow> node_id \<Rightarrow> int list" where
  "chunk_coord_delta cg a b =
     map2 (\<lambda>x y. x - y) (get_chunk_coordinates cg a) (get_chunk_coordinates cg b)"

definition too_far :: "int list \<Rightarrow> bool" where
  "too_far delta = list_ex (\<lambda>d. \<bar>d\<bar> > 3) delta"

text \<open>
  \<open>handle_merge\<close> from line 367 on, with the graph handle in hand. The lookup of line
  373 raises, so the statements after it are never reached.
\<close>

definition handle_merge_body ::
  "app \<Rightarrow> graph \<Rightarrow> string \<Rightarrow> bool \<Rightarrow> string \<Rightarrow> bool \<Rightarrow> (node_id \<times> int list) list \<Rightarrow>
   app_state \<Rightarrow> (error + edit_result) \<times> app_state" where
  "handle_merge_body ap cg table_id allow_same_segment_merge uid is_priority nodes st =
     (let node_ids = map fst nodes;
          coords = map (\<lambda>node. (snd node, segmentation_resolution cg)) nodes
      in case handle_supervoxel_id_lookup cg coords node_ids of
           Inl e \<Rightarrow> (Inl e, st)
         | Inr atomic_edge \<Rightarrow>
             (case atomic_edge of
                a # b # _ \<Rightarrow>
                  if too_far (chunk_coord_delta cg a b) then (Inl BadRequest, st)
                  else
                    (let call = AddEdges uid atomic_edge (take 1 coords) (drop 1 coords)
                                  allow_same_segment_merge;
                         st' = st\<lparr>events := events st @ [Edit call]\<rparr>
                     in case run_edit cg (events st) call of
                          Inl e \<Rightarrow> (Inl (merge_split_error e), st')
                        | Inr ret \<Rightarrow>
                            (case new_root_ids ret of
                               None \<Rightarrow> (Inl InternalServerError, st')
                             | Some _ \<Rightarrow> publish_and_return ap table_id ret is_priority st'))
              | _ \<Rightarrow> (Inl IndexError, st)))"

text \<open>
  \<open>handle_merge\<close>: the request body holds the two nodes, each an id followed by its
  coordinates. Line 366 calls \<open>app_utils.get_cg(table_id, skip_cache=True)\<close>.
\<close>

definition handle_merge ::
  "app \<Rightarrow> string \<Rightarrow> bool \<Rightarrow> string \<Rightarrow> bool \<Rightarrow> (node_id \<times> int list) list \<Rightarrow>
   app_state \<Rightarrow> (error + edit_result) \<times> app_state" where
  "handle_merge ap table_id allow_same_segment_merge uid is_priority nodes st =
     (if length nodes \<noteq> 2 then (Inl AssertionError, st)
      else case get_cg ap [PyStr table_id] [(''skip_cache'', PyBool True)] st of
             (Inl e, st') \<Rightarrow> (Inl e, st')
           | (Inr cg, st') \<Rightarrow>
               handle_merge_body ap cg table_id allow_same_segment_merge uid is_priority
                 nodes st')"

text \<open>
  \<open>handle_split\<close> from line 428 on; the lookup of line 445 raises as in
  \<open>handle_merge\<close>. The sources come first and carry the mark 0, the
  sinks the mark 1; \<open>xs[node_idents == k]\<close> (\<open>masked\<close>) keeps the entries of \<open>xs\<close> whose
  mark is \<open>k\<close> and needs as many entries as marks.
\<close>

definition masked :: "'a list \<Rightarrow> nat list \<Rightarrow> nat \<Rightarrow> 'a list" where
  "masked xs idents k = map fst (filter (\<lambda>x. snd x = k) (zip xs idents))"

definition handle_split_body ::
  "app \<Rightarrow> graph \<Rightarrow> string \<Rightarrow> string \<Rightarrow> bool \<Rightarrow> bool \<Rightarrow> (node_id \<times> int list) list \<Rightarrow>
   (node_id \<times> int list) list \<Rightarrow> app_state \<Rightarrow> (error + edit_result) \<times> app_state" where
  "handle_split_body ap cg table_id uid is_priority mincut sources sinks st =
     (let node_ids = map fst (sources @ sinks);
          coords = map (\<lambda>node. (snd node, segmentation_resolution cg)) (sources @ sinks);
          node_idents = replicate (length sources) (0::nat) @ replicate (length sinks) 1
      in case handle_supervoxel_id_lookup cg coords node_ids of
           Inl e \<Rightarrow> (Inl e, st)
         | Inr sv_ids \<Rightarrow>
             if length sv_ids \<noteq> length node_idents then (Inl IndexError, st)
             else
               (let call = RemoveEdges uid
                             (masked sv_ids node_idents 0) (masked sv_ids node_idents 1)
                             (masked coords node_idents 0) (masked coords node_idents 1)
                             mincut;
                    st' = st\<lparr>events := events st @ [Edit call]\<rparr>
                in case run_edit cg (events st) call of
                     Inl e \<Rightarrow> (Inl (merge_split_error e), st')
                   | Inr ret \<Rightarrow>
                       (case new_root_ids ret of
                          None \<Rightarrow> (Inl InternalServerError, st')
                        | Some _ \<Rightarrow> publish_and_return ap table_id ret is_priority st')))"

text \<open>\<open>handle_split\<close>: line 427 calls \<open>app_utils.get_cg(table_id, skip_cache=True)\<close>.\<close>

definition handle_split ::
  "app \<Rightarrow> string \<Rightarrow> string \<Rightarrow> bool \<Rightarrow> bool \<Rightarrow> (node_id \<times> int list) list \<Rightarrow>
   (node_id \<times> int list) list \<Rightarrow> app_state \<Rightarrow> (error + edit_result) \<times> app_state" where
  "handle_split ap table_id uid is_priority mincut sources sinks st =
     (case get_cg ap [PyStr table_id] [(''skip_cache'', PyBool True)] st of
        (Inl e, st') \<Rightarrow> (Inl e, st')
      | (Inr cg, st') \<Rightarrow>
          handle_split_body ap cg table_id uid is_priority mincut sources sinks st')"

subsection \<open>Undo and redo\<close>

text \<open>
  \<open>except LockingError\<close> and \<open>except (PreconditionError, PostconditionError)\<close> around
  \<open>cg.undo_operation\<close> and \<open>cg.redo_operation\<close>.
\<close>

fun undo_redo_error :: "error \<Rightarrow> error" where
  "undo_redo_error LockingError = InternalServerError"
| "undo_redo_error PreconditionError = BadRequest"
| "undo_redo_error PostconditionError = BadRequest"
| "undo_redo_error e = e"

definition handle_undo ::
  "app \<Rightarrow> string \<Rightarrow> string \<Rightarrow> bool \<Rightarrow> operation_id \<Rightarrow> app_state \<Rightarrow>
   (error + edit_result) \<times> app_state" where
  "handle_undo ap table_id uid is_priority opid st =
     (case get_cg ap [PyStr table_id] [] st of
        (Inl e, st') \<Rightarrow> (Inl e, st')
      | (Inr cg, st') \<Rightarrow>
          (let call = UndoOperation uid opid;
               st'' = st'\<lparr>events := events st' @ [Edit call]\<rparr>
           in case run_edit cg (events st') call of
                Inl e \<Rightarrow> (Inl (undo_redo_error e), st'')
              | Inr ret \<Rightarrow> publish_and_return ap table_id ret is_priority st''))"

definition handle_redo ::
  "app \<Rightarrow> string \<Rightarrow> string \<Rightarrow> bool \<Rightarrow> operation_id \<Rightarrow> app_state \<Rightarrow>
   (error + edit_result) \<times> app_state" where
  "handle_redo ap table_id uid is_priority opid st =
     (case get_cg ap [PyStr table_id] [] st of
        (Inl e, st') \<Rightarrow> (Inl e, st')
      | (Inr cg, st') \<Rightarrow>
          (let call = RedoOperation uid opid;
               st'' = st'\<lparr>events := events st' @ [Edit call]\<rparr>
           in case run_edit cg (events st') call of
                Inl e \<Rightarrow> (Inl (undo_redo_error e), st'')
              | Inr ret \<Rightarrow> publish_and_return ap table_id ret is_priority st''))"

subsection \<open>The operations of a user\<close>

text \<open>
  \<open>undone_ids\<close> starts as \<open>np.array([])\<close>, a float64 array, so every id appended to it
  or compared with it is converted to float64: exact below \<open>2^53\<close>, and rounded to 53
  significant bits (ties to even) from there on. The value of the float is kept as a
  natural number.
\<close>

fun bit_length :: "nat \<Rightarrow> nat" where
  "bit_length n = (if n = 0 then 0 else Suc (bit_length (n div 2)))"

declare bit_length.simps [simp del]

definition float64 :: "64 word \<Rightarrow> nat" where
  "float64 w =
     (let n = unat w
      in if n < 2 ^ 53 then n
         else (let e = bit_length n - 53; q = n div 2 ^ e; r = n mod 2 ^ e
               in (if 2 * r > 2 ^ e \<or> (2 * r = 2 ^ e \<and> odd q) then q + 1 else q) * 2 ^ e))"

text \<open>
  \<open>should_check\<close>: the entry has no \<open>Status\<close> column, or its status is SUCCESS.
\<close>

definition should_check :: "log_entry \<Rightarrow> bool" where
  "should_check entry = (Status entry = None \<or> Status entry = Some SUCCESS)"

text \<open>
  Lines 615-629, the update of \<open>undone_ids\<close> by one entry: \<open>np.append\<close> adds the undone
  id at the end, and \<open>np.delete\<close> with \<open>np.argwhere\<close> removes every occurrence of the
  redone id.
\<close>

definition update_undone :: "log_entry \<Rightarrow> nat list \<Rightarrow> nat list" where
  "update_undone entry undone_ids =
     (if should_check entry
      then (let marked = (case UndoOperationID entry of
                            Some undone_id \<Rightarrow> undone_ids @ [float64 undone_id]
                          | None \<Rightarrow> undone_ids)
            in case RedoOperationID entry of
                 Some redone_id \<Rightarrow> filter (\<lambda>u. u \<noteq> float64 redone_id) marked
               | None \<Rightarrow> marked)
      else undone_ids)"

text \<open>
  The first loop (lines 606-629) over the sorted entry ids, with \<open>valid_entry_ids\<close>,
  \<open>timestamp_list\<close> and \<open>undone_ids\<close> as its state.
\<close>

fun scan_entries ::
  "log_rows \<Rightarrow> string \<Rightarrow> operation_id list \<Rightarrow>
   operation_id list \<times> timestamp list \<times> nat list \<Rightarrow>
   error + operation_id list \<times> timestamp list \<times> nat list" where
  "scan_entries log_rows target [] acc = Inr acc"
| "scan_entries log_rows target (entry_id # rest) (valid_entry_ids, timestamp_list, undone_ids) =
     (case map_of log_rows entry_id of
        None \<Rightarrow> Inl KeyError
      | Some entry \<Rightarrow>
          scan_entries log_rows target rest
            (if entry_user entry = target then valid_entry_ids @ [entry_id]
             else valid_entry_ids,
             if entry_user entry = target then timestamp_list @ [entry_timestamp entry]
             else timestamp_list,
             update_undone entry undone_ids))"

text \<open>
  The second loop (lines 636-650): undo and redo records are skipped, and so is an
  entry whose id is in \<open>undone_ids\<close>. The lists are built front to back.
\<close>

fun filter_entries ::
  "log_rows \<Rightarrow> nat list \<Rightarrow> operation_id list \<Rightarrow> error + operation_id list \<times> timestamp list" where
  "filter_entries log_rows undone_ids [] = Inr ([], [])"
| "filter_entries log_rows undone_ids (entry_id # rest) =
     (case map_of log_rows entry_id of
        None \<Rightarrow> Inl KeyError
      | Some entry \<Rightarrow>
          (case filter_entries log_rows undone_ids rest of
             Inl e \<Rightarrow> Inl e
           | Inr (ids, timestamps) \<Rightarrow>
               if UndoOperationID entry \<noteq> None \<or> RedoOperationID entry \<noteq> None
               then Inr (ids, timestamps)
               else if float64 entry_id \<in> set undone_ids then Inr (ids, timestamps)
               else Inr (entry_id # ids, entry_timestamp entry # timestamps)))"

text \<open>
  \<open>all_user_operations\<close> from line 601 on. The result is the dictionary with the keys
  \<open>operation_id\<close> and \<open>timestamp\<close>, as the pair of its two lists.
\<close>

definition all_user_operations_body ::
  "log_rows \<Rightarrow> string \<Rightarrow> bool \<Rightarrow> error + operation_id list \<times> timestamp list" where
  "all_user_operations_body log_rows target include_undone =
     (let entry_ids = sort (remdups (map fst log_rows))
      in case scan_entries log_rows target entry_ids ([], [], []) of
           Inl e \<Rightarrow> Inl e
         | Inr (valid_entry_ids, timestamp_list, undone_ids) \<Rightarrow>
             if include_undone then Inr (valid_entry_ids, timestamp_list)
             else filter_entries log_rows undone_ids valid_entry_ids)"

text \<open>
  \<open>all_user_operations\<close>: \<open>request.args["user_id"]\<close> is the target user and
  \<open>start_time\<close> the parsed request parameter.
\<close>

definition all_user_operations ::
  "app \<Rightarrow> string \<Rightarrow> bool \<Rightarrow> string \<Rightarrow> timestamp \<Rightarrow> app_state \<Rightarrow>
   (error + operation_id list \<times> timestamp list) \<times> app_state" where
  "all_user_operations ap table_id include_undone target start_time st =
     (case get_cg ap [PyStr table_id] [] st of
        (Inl e, st') \<Rightarrow> (Inl e, st')
      | (Inr cg, st') \<Rightarrow>
          (case read_log_entries cg (events st') start_time of
             Inl e \<Rightarrow> (Inl e, st')
           | Inr log_rows \<Rightarrow> (all_user_operations_body log_rows target include_undone, st')))"

subsection \<open>Rollback\<close>

text \<open>
  The loop of \<open>handle_rollback\<close> (lines 562-574). Line 574 passes
  \<open>is_priority=is_priority\<close>; the name is assigned nowhere in \<open>handle_rollback\<close> and is
  no global of the module, so evaluating the argument raises \<open>NameError\<close> before
  \<open>publish_edit\<close> is called.
\<close>

fun rollback_loop ::
  "graph \<Rightarrow> string \<Rightarrow> (operation_id \<times> timestamp) list \<Rightarrow> app_state \<Rightarrow>
   (error + unit) \<times> app_state" where
  "rollback_loop cg target [] st = (Inr (), st)"
| "rollback_loop cg target (operation # rest) st =
     (let call = UndoOperation target (fst operation);
          st' = st\<lparr>events := events st @ [Edit call]\<rparr>
      in case run_edit cg (events st) call of
           Inl e \<Rightarrow> (Inl (undo_redo_error e), st')
         | Inr ret \<Rightarrow>
             if length (new_lvl2_ids ret) > 0 then (Inl NameError, st')
             else rollback_loop cg target rest st')"

text \<open>
  \<open>handle_rollback\<close>. \<open>operations.sort(key=lambda op: op[1], reverse=True)\<close> orders by
  descending timestamp and keeps the order of operations with equal timestamps.
\<close>

definition handle_rollback ::
  "app \<Rightarrow> string \<Rightarrow> string \<Rightarrow> timestamp \<Rightarrow> app_state \<Rightarrow>
   (error + operation_id list \<times> timestamp list) \<times> app_state" where
  "handle_rollback ap table_id target start_time st =
     (case get_cg ap [PyStr table_id] [] st of
        (Inl e, st1) \<Rightarrow> (Inl e, st1)
      | (Inr cg, st1) \<Rightarrow>
          (case all_user_operations ap table_id False target start_time st1 of
             (Inl e, st2) \<Rightarrow> (Inl e, st2)
           | (Inr user_operations, st2) \<Rightarrow>
               (let operations = sort_key (\<lambda>op. - snd op)
                                   (zip (fst user_operations) (snd user_operations))
                in case rollback_loop cg target operations st2 of
                     (Inl e, st3) \<Rightarrow> (Inl e, st3)
                   | (Inr _, st3) \<Rightarrow> (Inr user_operations, st3))))"

section \<open>Properties the claims speak of\<close>


text \<open>The exchange \<open>publish_edit\<close> publishes to.\<close>

definition edits_exchange :: "app \<Rightarrow> string" where
  "edits_exchange ap =
     (case PYCHUNKEDGRAPH_EDITS_EXCHANGE ap of None \<Rightarrow> ''pychunkedgraph'' | Some x \<Rightarrow> x)"

text \<open>
  The outcome of a handler whose edit call returned \<open>ret\<close> with new level-2 ids: the
  edit call and then the publish call are the new events, and the handler returns
  \<open>ret\<close> when the publish call returned and the publish call's exception otherwise.
\<close>

definition edit_then_publish ::
  "app \<Rightarrow> string \<Rightarrow> edit_call \<Rightarrow> edit_result \<Rightarrow> app_state \<Rightarrow>
   (error + edit_result) \<times> app_state" where
  "edit_then_publish ap table_id call ret st =
     (let payload = tobytes (new_lvl2_ids ret);
          attributes = [(''table_id'', table_id)];
          evs = events st @ [Edit call]
      in (case messaging_publish ap evs (edits_exchange ap) payload attributes of
            Inl e \<Rightarrow> Inl e
          | Inr _ \<Rightarrow> Inr ret,
          st\<lparr>events := evs @ [Publish (edits_exchange ap) payload attributes]\<rparr>))"

text \<open>The entry ids of a log in ascending order, and the entry of an id.\<close>

definition entry_ids :: "log_rows \<Rightarrow> operation_id list" where
  "entry_ids log_rows = sort (remdups (map fst log_rows))"

definition is_undo_of :: "log_rows \<Rightarrow> operation_id \<Rightarrow> operation_id \<Rightarrow> bool" where
  "is_undo_of log_rows u x =
     (case map_of log_rows u of
        None \<Rightarrow> False
      | Some entry \<Rightarrow> should_check entry \<and> UndoOperationID entry = Some x)"

definition is_redo_of :: "log_rows \<Rightarrow> operation_id \<Rightarrow> operation_id \<Rightarrow> bool" where
  "is_redo_of log_rows r x =
     (case map_of log_rows r of
        None \<Rightarrow> False
      | Some entry \<Rightarrow> should_check entry \<and> RedoOperationID entry = Some x)"

text \<open>
  An operation is effectively undone in operation-id order when a successful undo
  record names it and no successful redo record with the same or a larger id names it.
\<close>

definition effectively_undone :: "log_rows \<Rightarrow> operation_id \<Rightarrow> bool" where
  "effectively_undone log_rows x =
     (\<exists>u \<in> set (entry_ids log_rows). is_undo_of log_rows u x \<and>
        (\<forall>r \<in> set (entry_ids log_rows). is_redo_of log_rows r x \<longrightarrow> r < u))"

text \<open>
  An entry undoes (redoes) the float \<open>n\<close> when it is a successful undo (redo) record
  whose target converts to \<open>n\<close>.
\<close>

definition undoes :: "log_rows \<Rightarrow> operation_id \<Rightarrow> nat \<Rightarrow> bool" where
  "undoes log w n = (\<exists>x. is_undo_of log w x \<and> float64 x = n)"

definition redoes :: "log_rows \<Rightarrow> operation_id \<Rightarrow> nat \<Rightarrow> bool" where
  "redoes log w n = (\<exists>x. is_redo_of log w x \<and> float64 x = n)"

text \<open>An entry that is itself an undo or a redo record.\<close>

definition undo_or_redo_record :: "log_rows \<Rightarrow> operation_id \<Rightarrow> bool" where
  "undo_or_redo_record log_rows i =
     (case map_of log_rows i of
        None \<Rightarrow> False
      | Some entry \<Rightarrow> UndoOperationID entry \<noteq> None \<or> RedoOperationID entry \<noteq> None)"

definition authored_by :: "log_rows \<Rightarrow> string \<Rightarrow> operation_id \<Rightarrow> bool" where
  "authored_by log_rows target i =
     (case map_of log_rows i of None \<Rightarrow> False | Some entry \<Rightarrow> entry_user entry = target)"

definition timestamp_of :: "log_rows \<Rightarrow> operation_id \<Rightarrow> timestamp" where
  "timestamp_of log_rows i =
     (case map_of log_rows i of None \<Rightarrow> 0 | Some entry \<Rightarrow> entry_timestamp entry)"

text \<open>
  Every id of the log (entry ids, undone ids, redone ids) is below \<open>2^53\<close>, where the
  conversion to float64 is exact.
\<close>

definition ids_exact :: "log_rows \<Rightarrow> bool" where
  "ids_exact log_rows =
     list_all (\<lambda>row. unat (fst row) < 2 ^ 53 \<and>
                 (case UndoOperationID (snd row) of None \<Rightarrow> True | Some u \<Rightarrow> unat u < 2 ^ 53) \<and>
                 (case RedoOperationID (snd row) of None \<Rightarrow> True | Some r \<Rightarrow> unat r < 2 ^ 53))
       log_rows"

text \<open>
  The claim's words, for comparison with the code: the undo and redo records of
  successful entries are replayed in timestamp order, an undo marking its target and a
  redo unmarking it; the result keeps the target user's entries that are no undo or
  redo records and are not marked.
\<close>

fun replay :: "log_entry list \<Rightarrow> operation_id list \<Rightarrow> operation_id list" where
  "replay [] undone = undone"
| "replay (entry # entries) undone =
     replay entries
       (if should_check entry
        then (let marked = (case UndoOperationID entry of
                              Some u \<Rightarrow> u # undone | None \<Rightarrow> undone)
              in case RedoOperationID entry of
                   Some r \<Rightarrow> removeAll r marked | None \<Rightarrow> marked)
        else undone)"

definition rows_by_id :: "log_rows \<Rightarrow> log_rows" where
  "rows_by_id log_rows =
     List.map_filter (\<lambda>i. map_option (Pair i) (map_of log_rows i)) (entry_ids log_rows)"

definition user_operations_by_timestamp ::
  "log_rows \<Rightarrow> string \<Rightarrow> operation_id list \<times> timestamp list" where
  "user_operations_by_timestamp log_rows target =
     (let by_time = sort_key (\<lambda>row. entry_timestamp (snd row)) (rows_by_id log_rows);
          undone = replay (map snd by_time) [];
          kept = filter (\<lambda>row. entry_user (snd row) = target \<and>
                                 UndoOperationID (snd row) = None \<and>
                                 RedoOperationID (snd row) = None \<and>
                                 fst row \<notin> set undone)
                   (rows_by_id log_rows)
      in (map fst kept, map (\<lambda>row. entry_timestamp (snd row)) kept))"

text \<open>The timestamps of the log do not decrease as the entry ids grow.\<close>

definition timestamps_follow_ids :: "log_rows \<Rightarrow> bool" where
  "timestamps_follow_ids log = sorted (map (timestamp_of log) (entry_ids log))"

text \<open>Every undo the graph is asked for succeeds and returns no new level-2 id.\<close>

definition quiet_undo :: "graph \<Rightarrow> bool" where
  "quiet_undo cg =
     (\<forall>evs u i. \<exists>ret. run_edit cg evs (UndoOperation u i) = Inr ret \<and> new_lvl2_ids ret = [])"

section \<open>Concrete environments\<close>

text \<open>
  A backend graph in which every supervoxel is on layer 1 and under root 100, every
  lock is granted to operation 7 at time 1000, the engine changes one hierarchy row,
  the min-cut finds nothing, and every write succeeds.
\<close>

definition demo_cg :: chunked_graph where
  "demo_cg =
     \<lparr>get_chunk_layer = (\<lambda>_. 1),
      get_roots = (\<lambda>_ ids. Inr (map (\<lambda>_. 100) ids)),
      RootLock = (\<lambda>_ roots. Inr \<lparr>operation_id = 7, locked_root_ids = roots\<rparr>),
      read_consolidated_lock_timestamp = (\<lambda>_ _ _. Inr 1000),
      run_multicut = (\<lambda>_ _ _ _ _ _. Inr []),
      add_edges_changes = (\<lambda>_ _ _ _ _. Inr ([200], [20], [([], HierarchyCells [])])),
      remove_edges_changes = (\<lambda>_ _ _ _. Inr ([201, 202], [21, 22], [([], HierarchyCells [])])),
      bulk_write = (\<lambda>_ _ _ _ _. Inr ())\<rparr>"

text \<open>
  The same graph with every supervoxel under a root of its own, and the same graph
  with a min-cut that finds the edge (1, 2).
\<close>

definition split_cg :: chunked_graph where
  "split_cg = demo_cg\<lparr>get_roots := (\<lambda>_ ids. Inr ids)\<rparr>"


definition demo_self :: graph_edit_operation where
  "demo_self = \<lparr>user_id = ''u'', source_ids = Some [1], sink_ids = Some [2],
                source_coords = None, sink_coords = None\<rparr>"

text \<open>
  A log in which the redo record (id 2) of operation 1 has a later timestamp than the
  undo record (id 3) of the same operation, and a log in which ids and timestamps agree.
\<close>

definition plain_entry :: "string \<Rightarrow> timestamp \<Rightarrow> log_entry" where
  "plain_entry u t = \<lparr>entry_user = u, entry_timestamp = t, Status = None,
                       UndoOperationID = None, RedoOperationID = None\<rparr>"

definition skewed_log :: log_rows where
  "skewed_log =
     [(1, plain_entry ''u'' 10),
      (2, (plain_entry ''v'' 30)\<lparr>RedoOperationID := Some 1\<rparr>),
      (3, (plain_entry ''v'' 20)\<lparr>UndoOperationID := Some 1\<rparr>)]"

definition demo_log :: log_rows where
  "demo_log =
     [(1, plain_entry ''u'' 10),
      (2, plain_entry ''u'' 20),
      (3, (plain_entry ''v'' 30)\<lparr>UndoOperationID := Some 1\<rparr>)]"

text \<open>
  A graph handle whose chunk coordinate is the id itself on the x axis, whose edits
  all return root 200 and level-2 id 20, and whose log is \<open>demo_log\<close>; an application
  around it in which publishing succeeds;
  the same application with a message bus that fails, and with the skewed log.
\<close>

definition demo_graph :: graph where
  "demo_graph =
     \<lparr>segmentation_resolution = [8, 8, 40],
      get_chunk_coordinates = (\<lambda>n. [uint n, 0, 0]),
      run_edit = (\<lambda>_ _. Inr \<lparr>new_root_ids = Some [200], new_lvl2_ids = [20]\<rparr>),
      read_log_entries = (\<lambda>_ _. Inr demo_log)\<rparr>"

definition demo_app :: app where
  "demo_app =
     \<lparr>new_ChunkedGraph = (\<lambda>_. Inr demo_graph),
      PYCHUNKEDGRAPH_EDITS_EXCHANGE = None,
      messaging_publish = (\<lambda>_ _ _ _. Inr ())\<rparr>"

definition bus_down_app :: app where
  "bus_down_app = demo_app\<lparr>messaging_publish := (\<lambda>_ _ _ _. Inl ExternalError)\<rparr>"

definition skewed_app :: app where
  "skewed_app =
     demo_app\<lparr>new_ChunkedGraph :=
       (\<lambda>_. Inr (demo_graph\<lparr>read_log_entries := (\<lambda>_ _. Inr skewed_log)\<rparr>))\<rparr>"

definition demo_state :: app_state where
  "demo_state = \<lparr>CACHE = [], events = []\<rparr>"

text \<open>
  A log record with the five columns \<open>from_log_record\<close> always reads; a log of two plain
  operations of one user, and a graph handle with that log whose edits return no new
  level-2 id.
\<close>

definition full_record :: log_columns where
  "full_record = no_columns\<lparr>UserID := Some ''u'', SourceID := Some [1], SinkID := Some [2],
     SourceCoordinate := Some [[0, 0, 0]], SinkCoordinate := Some [[8, 0, 0]]\<rparr>"

definition quiet_log :: log_rows where
  "quiet_log = [(1, plain_entry ''u'' 10), (2, plain_entry ''u'' 20)]"

definition quiet_graph :: graph where
  "quiet_graph =
     demo_graph\<lparr>run_edit := (\<lambda>_ _. Inr \<lparr>new_root_ids = Some [200], new_lvl2_ids = []\<rparr>),
       read_log_entries := (\<lambda>_ _. Inr quiet_log)\<rparr>"

definition quiet_app :: app where
  "quiet_app = demo_app\<lparr>new_ChunkedGraph := (\<lambda>_. Inr quiet_graph)\<rparr>"

section \<open>The constructors\<close>

lemma list_ex_member_iff:
  "list_ex (\<lambda>s. s \<in> set sources) sinks = (set sources \<inter> set sinks \<noteq> {})"
  by (auto simp: list_ex_iff)

lemma GraphEditOperation_init_shared:
  "set sources \<inter> set sinks \<noteq> {} \<Longrightarrow>
   GraphEditOperation_init cg uid (Some sources) (Some sinks) sc kc = Inl PreconditionError"
  by (simp add: GraphEditOperation_init_def list_ex_member_iff)

text \<open>
  C10. Whenever a supervoxel id is both a source and a sink, the base constructor and
  the constructors of the three operations raise \<open>PreconditionError\<close>; for a merge or
  a split the sources and sinks are the two columns of the edge array, so an edge
  with equal endpoints is covered. The constructors are functions of their arguments
  alone: they take no event list and return none, so no root is looked up, no lock is
  taken and nothing is written before the error.
\<close>

theorem C10_shared_supervoxel_rejected:
  "(set sources \<inter> set sinks \<noteq> {} \<longrightarrow>
      GraphEditOperation_init cg uid (Some sources) (Some sinks) sc kc = Inl PreconditionError) \<and>
   (set (map fst added_edges) \<inter> set (map snd added_edges) \<noteq> {} \<longrightarrow>
      MergeOperation_init cg uid added_edges sc kc aff = Inl PreconditionError) \<and>
   (set (map fst removed_edges) \<inter> set (map snd removed_edges) \<noteq> {} \<longrightarrow>
      SplitOperation_init cg uid removed_edges sc kc = Inl PreconditionError) \<and>
   (set sources \<inter> set sinks \<noteq> {} \<longrightarrow>
      MulticutOperation_init cg uid sources sinks sc' kc' bbox = Inl PreconditionError)"
  by (simp add: MergeOperation_init_def SplitOperation_init_def MulticutOperation_init_def
        GraphEditOperation_init_shared)

theorem C10_shared_supervoxel_rejected_witness:
  "set [5::node_id] \<inter> set [5, 6] \<noteq> {} \<and>
   GraphEditOperation_init demo_cg ''u'' (Some [5]) (Some [5, 6]) None None = Inl PreconditionError \<and>
   set (map fst [(5::node_id, 5::node_id)]) \<inter> set (map snd [(5::node_id, 5::node_id)]) \<noteq> {} \<and>
   MergeOperation_init demo_cg ''u'' [(5, 5)] None None None = Inl PreconditionError \<and>
   SplitOperation_init demo_cg ''u'' [(5, 5)] None None = Inl PreconditionError \<and>
   MulticutOperation_init demo_cg ''u'' [5] [5, 6] [] [] None = Inl PreconditionError"
  using C10_shared_supervoxel_rejected [of "[5]" "[5, 6]" demo_cg "''u''" None None
          "[(5, 5)]" None "[(5, 5)]" "[]" "[]" None]
  by simp

section \<open>Applying an operation: locks, rows and timestamps\<close>

lemma np_unique_length: "length (np_unique xs) = card (set xs)"
  by (simp add: np_unique_def length_remdups_card_conv)

lemma np_unique_single: "set xs = {r} \<Longrightarrow> np_unique xs = [r]"
proof -
  assume a: "set xs = {r}"
  have l: "length (np_unique xs) = 1" using a by (simp add: np_unique_length)
  have s: "set (np_unique xs) = {r}" using a by (simp add: np_unique_def)
  from l obtain y where y: "np_unique xs = [y]"
    by (cases "np_unique xs") auto
  with s show ?thesis by simp
qed

lemma with_RootLock_refused:
  "RootLock cg tr roots = Inl e \<Longrightarrow> with_RootLock cg roots block tr = (Inl e, tr)"
  by (simp add: with_RootLock_def)

lemma with_RootLock_granted:
  "RootLock cg tr roots = Inr lk \<Longrightarrow>
   with_RootLock cg roots block tr =
     (fst (block lk (tr @ [RootLockEnter (locked_root_ids lk) (operation_id lk)])),
      snd (block lk (tr @ [RootLockEnter (locked_root_ids lk) (operation_id lk)])) @
        [RootLockExit (locked_root_ids lk) (operation_id lk)])"
  by (simp add: with_RootLock_def split: prod.splits)

text \<open>Every block only appends events.\<close>

lemma write_rows_extends:
  "\<exists>evs. snd (write_rows cg self lk ts nr nl rows tr) = tr @ evs"
  by (simp add: write_rows_def Let_def split: sum.splits)

lemma split_block_extends: "\<exists>evs. snd (split_block cg self es lk tr) = tr @ evs"
  using write_rows_extends by (auto simp: split_block_def split: sum.splits prod.splits)

lemma multicut_block_extends: "\<exists>evs. snd (multicut_block cg self bbox lk tr) = tr @ evs"
  using write_rows_extends by (auto simp: multicut_block_def split: sum.splits prod.splits)

lemma with_RootLock_enters:
  assumes "RootLock cg tr roots = Inr lk" and "\<And>l t. \<exists>evs. snd (block l t) = t @ evs"
  shows "\<exists>res evs. with_RootLock cg roots block tr =
           (res, tr @ RootLockEnter (locked_root_ids lk) (operation_id lk) # evs)"
proof -
  obtain evs where "snd (block lk (tr @ [RootLockEnter (locked_root_ids lk) (operation_id lk)]))
      = (tr @ [RootLockEnter (locked_root_ids lk) (operation_id lk)]) @ evs"
    using assms(2) by blast
  then show ?thesis using assms(1) by (simp add: with_RootLock_granted)
qed

lemma split_several_roots:
  assumes "source_ids self = Some src" "sink_ids self = Some snk"
    and "get_roots cg tr (src @ snk) = Inr roots" and "1 < card (set roots)"
  shows "apply_operation cg (SplitOperation self removed_edges) tr = (Inl PreconditionError, tr)"
    and "apply_operation cg (MulticutOperation self unset bbox) tr = (Inl PreconditionError, tr)"
  using assms by (simp_all add: source_and_sink_ids_def np_unique_length)

lemma split_one_root_refused:
  assumes "source_ids self = Some src" "sink_ids self = Some snk"
    and "get_roots cg tr (src @ snk) = Inr roots" and "set roots = {r}"
    and "RootLock cg tr [r] = Inl e"
  shows "apply_operation cg (SplitOperation self removed_edges) tr = (Inl e, tr)"
    and "apply_operation cg (MulticutOperation self unset bbox) tr = (Inl e, tr)"
  using assms
  by (simp_all add: source_and_sink_ids_def np_unique_single with_RootLock_refused)

lemma split_one_root_granted:
  assumes "source_ids self = Some src" "sink_ids self = Some snk"
    and "get_roots cg tr (src @ snk) = Inr roots" and "set roots = {r}"
    and "RootLock cg tr [r] = Inr lk"
  shows "\<exists>res evs. apply_operation cg (SplitOperation self removed_edges) tr =
           (res, tr @ RootLockEnter (locked_root_ids lk) (operation_id lk) # evs)"
    and "\<exists>res evs. apply_operation cg (MulticutOperation self unset bbox) tr =
           (res, tr @ RootLockEnter (locked_root_ids lk) (operation_id lk) # evs)"
  using assms
    with_RootLock_enters [of cg tr "[r]" lk "split_block cg self removed_edges",
      OF assms(5) split_block_extends]
    with_RootLock_enters [of cg tr "[r]" lk "multicut_block cg self bbox",
      OF assms(5) multicut_block_extends]
  by (simp_all add: source_and_sink_ids_def np_unique_single)

text \<open>
  C2. For a split and for a multicut whose source and sink ids resolve to the roots
  \<open>roots\<close>: with more than one distinct root the operation raises \<open>PreconditionError\<close>
  and the event list is unchanged, so no lock was entered and nothing was written.
  When all ids share the one root \<open>r\<close> the check passes: the lock over exactly \<open>[r]\<close>
  is requested, a refusal of the lock is the operation's error, and a granted lock is
  the first new event.
\<close>

theorem C2_split_needs_one_root:
  assumes "op = SplitOperation self removed_edges \<or> op = MulticutOperation self unset bbox"
    and "source_ids self = Some src" and "sink_ids self = Some snk"
    and "get_roots cg tr (src @ snk) = Inr roots"
  shows "(1 < card (set roots) \<longrightarrow> apply_operation cg op tr = (Inl PreconditionError, tr)) \<and>
         (\<forall>r. set roots = {r} \<longrightarrow>
            (\<forall>e. RootLock cg tr [r] = Inl e \<longrightarrow> apply_operation cg op tr = (Inl e, tr)) \<and>
            (\<forall>lk. RootLock cg tr [r] = Inr lk \<longrightarrow>
               (\<exists>res evs. apply_operation cg op tr =
                  (res, tr @ RootLockEnter (locked_root_ids lk) (operation_id lk) # evs))))"
  using assms(1)
proof
  assume "op = SplitOperation self removed_edges"
  then show ?thesis
    using split_several_roots(1) [OF assms(2-4)] split_one_root_refused(1) [OF assms(2-4)]
      split_one_root_granted(1) [OF assms(2-4)]
    by blast
next
  assume "op = MulticutOperation self unset bbox"
  then show ?thesis
    using split_several_roots(2) [OF assms(2-4)] split_one_root_refused(2) [OF assms(2-4)]
      split_one_root_granted(2) [OF assms(2-4)]
    by blast
qed

theorem C2_split_needs_one_root_witness:
  "1 < card (set [1, 2::node_id]) \<and>
   apply_operation split_cg (SplitOperation demo_self [(1, 2)]) [] = (Inl PreconditionError, []) \<and>
   set [100, 100::node_id] = {100} \<and>
   (\<exists>res evs. apply_operation demo_cg (MulticutOperation demo_self None None) [] =
      (res, [] @ RootLockEnter [100] 7 # evs))"
proof -
  have a: "1 < card (set [1, 2::node_id])" by simp
  have b: "apply_operation split_cg (SplitOperation demo_self [(1, 2)]) [] =
      (Inl PreconditionError, [])"
    using a C2_split_needs_one_root [where op = "SplitOperation demo_self [(1, 2)]"
        and self = demo_self and removed_edges = "[(1, 2)]" and src = "[1]" and snk = "[2]"
        and cg = split_cg and tr = "[]" and roots = "[1, 2]"]
    by (simp add: demo_self_def split_cg_def demo_cg_def)
  have c: "set [100, 100::node_id] = {100}" by simp
  have "\<exists>res evs. apply_operation demo_cg (MulticutOperation demo_self None None) [] =
      (res, [] @ RootLockEnter (locked_root_ids \<lparr>operation_id = 7, locked_root_ids = [100]\<rparr>)
                  (operation_id \<lparr>operation_id = 7, locked_root_ids = [100]\<rparr>) # evs)"
    using c C2_split_needs_one_root [where op = "MulticutOperation demo_self None None"
        and self = demo_self and unset = None and bbox = None and src = "[1]" and snk = "[2]"
        and cg = demo_cg and tr = "[]" and roots = "[100, 100]"]
    by (simp add: demo_self_def demo_cg_def)
  then have d: "\<exists>res evs. apply_operation demo_cg (MulticutOperation demo_self None None) [] =
      (res, [] @ RootLockEnter [100] 7 # evs)" by simp
  from a b c d show ?thesis by blast
qed

text \<open>
  C4. When the endpoints are under at most one root, the lock is granted, the lock
  timestamp is read and the min-cut returns no edge, \<open>MulticutOperation.apply\<close> raises
  \<open>PostconditionError\<close>, and entering and leaving the lock are its only events: the
  error comes from inside the lock, and \<open>bulk_write\<close> is not called, so neither a log
  row nor a hierarchy row is written.
\<close>

theorem C4_empty_mincut_writes_nothing:
  assumes "source_ids self = Some src" and "sink_ids self = Some snk"
    and "get_roots cg tr (src @ snk) = Inr roots" and "card (set roots) \<le> 1"
    and "RootLock cg tr (np_unique roots) = Inr lk"
    and "lock_timestamp cg lk (tr @ [RootLockEnter (locked_root_ids lk) (operation_id lk)]) = Inr ts"
    and "run_multicut cg (tr @ [RootLockEnter (locked_root_ids lk) (operation_id lk)])
           (source_ids self) (sink_ids self) (source_coords self) (sink_coords self) bbox = Inr []"
  shows "apply_operation cg (MulticutOperation self unset bbox) tr =
           (Inl PostconditionError,
            tr @ [RootLockEnter (locked_root_ids lk) (operation_id lk),
                  RootLockExit (locked_root_ids lk) (operation_id lk)])"
proof -
  have "multicut_block cg self bbox lk
          (tr @ [RootLockEnter (locked_root_ids lk) (operation_id lk)]) =
        (Inl PostconditionError, tr @ [RootLockEnter (locked_root_ids lk) (operation_id lk)])"
    using assms(6,7) by (simp add: multicut_block_def)
  then have "with_RootLock cg (np_unique roots) (multicut_block cg self bbox) tr =
        (Inl PostconditionError,
         tr @ [RootLockEnter (locked_root_ids lk) (operation_id lk),
               RootLockExit (locked_root_ids lk) (operation_id lk)])"
    using assms(5) by (simp add: with_RootLock_granted)
  then show ?thesis
    using assms(1-4) by (simp add: source_and_sink_ids_def np_unique_length)
qed

theorem C4_empty_mincut_writes_nothing_witness:
  "card (set [100, 100::node_id]) \<le> 1 \<and>
   run_multicut demo_cg [RootLockEnter [100] 7] (Some [1]) (Some [2]) None None None = Inr [] \<and>
   apply_operation demo_cg (MulticutOperation demo_self None None) [] =
     (Inl PostconditionError, [RootLockEnter [100] 7, RootLockExit [100] 7])"
proof -
  have u: "np_unique [100, 100::node_id] = [100]" by (rule np_unique_single) simp
  show ?thesis
    using C4_empty_mincut_writes_nothing [where self = demo_self and src = "[1]" and snk = "[2]"
        and cg = demo_cg and tr = "[]" and roots = "[100, 100]"
        and lk = "\<lparr>operation_id = 7, locked_root_ids = [100]\<rparr>" and ts = 1000
        and bbox = None and unset = None]
    by (simp add: demo_self_def demo_cg_def u lock_timestamp_def)
qed


lemma create_log_record_stamp [simp]:
  "time_stamp (create_log_record self opid ts nr) = ts"
  by (simp add: create_log_record_def mutate_row_def)

lemma create_log_record_multicut:
  "create_log_record (MulticutOperation self x bbox) opid ts nr =
   create_log_record (MulticutOperation self y bbox) opid ts nr"
  by (simp add: create_log_record_def)












text \<open>
  C5. \<open>from_log_record\<close> on the records the code itself writes: the record of a merge
  and the record of a split have no \<open>SourceID\<close> column, so line 75 raises \<open>KeyError\<close>
  before the \<open>AddedEdge\<close> test is reached; the record of a multicut has neither
  \<open>AddedEdge\<close> nor \<open>RemovedEdge\<close> and is never decoded either.
\<close>

theorem C5_written_log_records_do_not_decode:
  "from_log_record cg (log_val_dict (MergeOperation self added_edges affinities) root_ids)
     multicut_as_split = Inl KeyError \<and>
   from_log_record cg (log_val_dict (SplitOperation self removed_edges) root_ids)
     multicut_as_split = Inl KeyError \<and>
   isl (from_log_record cg (log_val_dict (MulticutOperation self unset bbox) root_ids)
     multicut_as_split)"
  by (simp add: from_log_record_def log_column_def no_columns_def split: option.splits)

section \<open>The graph handle of the merge and split handlers\<close>

lemma get_cg_skip_cache:
  "get_cg ap [PyStr t] [(''skip_cache'', PyBool True)] st = (Inl TypeError, st)"
  by (simp add: get_cg_def bind_arguments_def get_cg_params_def)

lemma get_cg_table_id: "get_cg ap [PyStr t] [] st = get_cg_body ap t st"
  by (simp add: get_cg_def bind_arguments_def get_cg_params_def)

lemma handle_merge_TypeError:
  "handle_merge ap t allow uid p [n1, n2] st = (Inl TypeError, st)"
  by (simp add: handle_merge_def get_cg_skip_cache)

lemma handle_split_TypeError:
  "handle_split ap t uid p m sources sinks st = (Inl TypeError, st)"
  by (simp add: handle_split_def get_cg_skip_cache)

text \<open>
  C9. \<open>handle_merge\<close> and \<open>handle_split\<close> call \<open>get_cg(table_id, skip_cache=True)\<close>, and
  \<open>get_cg\<close> has the single parameter \<open>table_id\<close>: binding the keyword \<open>skip_cache\<close>
  raises \<open>TypeError\<close>, where the call \<open>get_cg(table_id)\<close> of the other handlers binds.
  So for every table and every request both handlers raise \<open>TypeError\<close> at the lookup
  and leave the state as it was.
\<close>

theorem C9_get_cg_called_with_unknown_keyword:
  "bind_arguments get_cg_params [PyStr table_id] [(''skip_cache'', PyBool True)] = Inl TypeError \<and>
   bind_arguments get_cg_params [PyStr table_id] [] = Inr [(''table_id'', PyStr table_id)] \<and>
   handle_merge ap table_id allow uid prio [n1, n2] st = (Inl TypeError, st) \<and>
   handle_split ap table_id uid prio mincut sources sinks st = (Inl TypeError, st)"
  by (simp add: handle_merge_TypeError handle_split_TypeError bind_arguments_def get_cg_params_def)

text \<open>
  C3. A merge request whose endpoints lie 10 chunks apart on the x axis: the distance
  test would reject it, but \<open>handle_merge\<close> raises \<open>TypeError\<close> at the graph lookup
  before the test is reached, and the state is unchanged.
\<close>

theorem C3_distant_merge_raises_TypeError:
  "chunk_coord_delta demo_graph 1 11 = [-10, 0, 0] \<and>
   too_far (chunk_coord_delta demo_graph 1 11) \<and>
   handle_merge demo_app ''minnie65'' False ''u'' True [(1, [0, 0, 0]), (11, [80, 0, 0])]
     demo_state = (Inl TypeError, demo_state)"
  by (simp add: handle_merge_TypeError chunk_coord_delta_def too_far_def demo_graph_def)

section \<open>Publishing the new level-2 ids\<close>

lemma publish_and_return_new_ids:
  "new_lvl2_ids ret \<noteq> [] \<Longrightarrow>
   publish_and_return ap t ret p (st\<lparr>events := events st @ [Edit call]\<rparr>) =
     edit_then_publish ap t call ret st"
  by (simp add: publish_and_return_def publish_edit_def edit_then_publish_def edits_exchange_def
        Let_def split: sum.splits)

lemma handle_undo_publishes:
  assumes "get_cg_body ap t st = (Inr cg, st1)"
    and "run_edit cg (events st1) (UndoOperation uid opid) = Inr ret"
    and "new_lvl2_ids ret \<noteq> []"
  shows "handle_undo ap t uid p opid st = edit_then_publish ap t (UndoOperation uid opid) ret st1"
  using assms by (simp add: handle_undo_def get_cg_table_id publish_and_return_new_ids)

lemma handle_redo_publishes:
  assumes "get_cg_body ap t st = (Inr cg, st1)"
    and "run_edit cg (events st1) (RedoOperation uid opid) = Inr ret"
    and "new_lvl2_ids ret \<noteq> []"
  shows "handle_redo ap t uid p opid st = edit_then_publish ap t (RedoOperation uid opid) ret st1"
  using assms by (simp add: handle_redo_def get_cg_table_id publish_and_return_new_ids)

text \<open>
  C6, as the claim states it, fails: with a message bus that raises, the undo has been
  carried out and has returned its result, the publish call has been made, and
  \<open>handle_undo\<close> ends with the exception of the publish call instead of the result.
\<close>

theorem C6_publish_failure_fails_the_handler:
  "run_edit demo_graph [] (UndoOperation ''u'' 2) =
     Inr \<lparr>new_root_ids = Some [200], new_lvl2_ids = [20]\<rparr> \<and>
   fst (handle_undo bus_down_app ''minnie65'' ''u'' True 2 demo_state) = Inl ExternalError \<and>
   events (snd (handle_undo bus_down_app ''minnie65'' ''u'' True 2 demo_state)) =
     [Edit (UndoOperation ''u'' 2),
      Publish ''pychunkedgraph'' (tobytes [20]) [(''table_id'', ''minnie65'')]]"
  by (simp add: handle_undo_def get_cg_table_id get_cg_body_def startswith_def
        bus_down_app_def demo_app_def demo_state_def demo_graph_def
        publish_and_return_def publish_edit_def)

text \<open>
  C6, amended. For an undo and for a redo of a served table: when the edit call
  returns a result with at least one new level-2 id, the handler's new events are the
  edit call followed by one publish call with the exchange, the ids as a contiguous
  buffer of eight bytes each and the table id as attribute; the handler returns the
  edit's result when the publish call returns, and the publish call's exception
  otherwise.
\<close>

theorem C6_publish_after_edit:
  "(get_cg_body ap t st = (Inr cg, cached) \<and>
    run_edit cg (events cached) (UndoOperation uid opid) = Inr ret \<and> new_lvl2_ids ret \<noteq> [] \<longrightarrow>
      handle_undo ap t uid p opid st =
        edit_then_publish ap t (UndoOperation uid opid) ret cached) \<and>
   (get_cg_body ap t st = (Inr cg, cached) \<and>
    run_edit cg (events cached) (RedoOperation uid opid) = Inr ret \<and> new_lvl2_ids ret \<noteq> [] \<longrightarrow>
      handle_redo ap t uid p opid st =
        edit_then_publish ap t (RedoOperation uid opid) ret cached)"
proof (intro conjI impI; elim conjE)
  show "handle_undo ap t uid p opid st = edit_then_publish ap t (UndoOperation uid opid) ret cached"
    if "get_cg_body ap t st = (Inr cg, cached)"
      and "run_edit cg (events cached) (UndoOperation uid opid) = Inr ret"
      and "new_lvl2_ids ret \<noteq> []"
    using that by (rule handle_undo_publishes)
  show "handle_redo ap t uid p opid st = edit_then_publish ap t (RedoOperation uid opid) ret cached"
    if "get_cg_body ap t st = (Inr cg, cached)"
      and "run_edit cg (events cached) (RedoOperation uid opid) = Inr ret"
      and "new_lvl2_ids ret \<noteq> []"
    using that by (rule handle_redo_publishes)
qed

lemma get_cg_demo:
  "get_cg_body demo_app ''minnie65'' demo_state =
     (Inr demo_graph, \<lparr>CACHE = [(''minnie65'', demo_graph)], events = []\<rparr>)"
  by (simp add: get_cg_body_def startswith_def demo_app_def demo_state_def)

theorem C6_publish_after_edit_witness:
  "handle_undo demo_app ''minnie65'' ''u'' True 2 demo_state =
     (Inr \<lparr>new_root_ids = Some [200], new_lvl2_ids = [20]\<rparr>,
      \<lparr>CACHE = [(''minnie65'', demo_graph)],
       events = [Edit (UndoOperation ''u'' 2),
                 Publish ''pychunkedgraph'' (tobytes [20]) [(''table_id'', ''minnie65'')]]\<rparr>) \<and>
   handle_redo demo_app ''minnie65'' ''u'' True 2 demo_state =
     (Inr \<lparr>new_root_ids = Some [200], new_lvl2_ids = [20]\<rparr>,
      \<lparr>CACHE = [(''minnie65'', demo_graph)],
       events = [Edit (RedoOperation ''u'' 2),
                 Publish ''pychunkedgraph'' (tobytes [20]) [(''table_id'', ''minnie65'')]]\<rparr>)"
  using C6_publish_after_edit [where ap = demo_app and t = "''minnie65''" and st = demo_state
      and cg = demo_graph and cached = "\<lparr>CACHE = [(''minnie65'', demo_graph)], events = []\<rparr>"
      and uid = "''u''" and opid = 2 and p = True
      and ret = "\<lparr>new_root_ids = Some [200], new_lvl2_ids = [20]\<rparr>"]
    get_cg_demo
  by (simp add: demo_graph_def demo_app_def edit_then_publish_def edits_exchange_def)

section \<open>The operations of a user and the rollback\<close>

lemma entry_ids_demo: "sort (remdups (map fst demo_log)) = [1, 2, 3]"
  by (simp add: demo_log_def)

lemma body_demo: "all_user_operations_body demo_log ''u'' False = Inr ([2], [20])"
  by (simp add: all_user_operations_body_def entry_ids_demo)
     (simp add: demo_log_def plain_entry_def should_check_def float64_def update_undone_def)

lemma all_user_operations_demo:
  "all_user_operations demo_app ''minnie65'' False ''u'' 0
     \<lparr>CACHE = [(''minnie65'', demo_graph)], events = []\<rparr> =
     (Inr ([2], [20]), \<lparr>CACHE = [(''minnie65'', demo_graph)], events = []\<rparr>)"
  by (simp add: all_user_operations_def get_cg_table_id get_cg_body_def startswith_def
        body_demo)
     (simp add: demo_graph_def body_demo)

text \<open>
  C8. A rollback of a user with one effective operation (id 2) whose undo returns a
  new level-2 id: the undo is carried out, then line 574 evaluates the unbound name
  \<open>is_priority\<close>, and \<open>handle_rollback\<close> ends with \<open>NameError\<close>; nothing is published
  and the operation list is not returned.
\<close>

theorem C8_rollback_raises_NameError:
  "run_edit demo_graph [] (UndoOperation ''u'' 2) =
     Inr \<lparr>new_root_ids = Some [200], new_lvl2_ids = [20]\<rparr> \<and>
   fst (handle_rollback demo_app ''minnie65'' ''u'' 0 demo_state) = Inl NameError \<and>
   events (snd (handle_rollback demo_app ''minnie65'' ''u'' 0 demo_state)) =
     [Edit (UndoOperation ''u'' 2)]"
  by (simp add: handle_rollback_def get_cg_table_id get_cg_demo all_user_operations_demo)
     (simp add: demo_graph_def)

lemma entry_ids_skewed: "sort (remdups (map fst skewed_log)) = [1, 2, 3]"
  by (simp add: skewed_log_def)

lemma body_skewed: "all_user_operations_body skewed_log ''u'' False = Inr ([], [])"
  by (simp add: all_user_operations_body_def entry_ids_skewed)
     (simp add: skewed_log_def plain_entry_def should_check_def float64_def update_undone_def)

lemma rows_by_id_skewed: "rows_by_id skewed_log = skewed_log"
  by (simp add: rows_by_id_def entry_ids_def entry_ids_skewed)
     (simp add: skewed_log_def)

lemma spec_skewed: "user_operations_by_timestamp skewed_log ''u'' = ([1], [10])"
  by (simp add: user_operations_by_timestamp_def rows_by_id_skewed)
     (simp add: skewed_log_def plain_entry_def should_check_def)

text \<open>
  C7, as the claim states it, fails: in \<open>skewed_log\<close> the undo record of operation 1
  (id 3, time 20) is older than its redo record (id 2, time 30). Replayed in timestamp
  order the operation ends up redone and is one of the user's operations; the code
  replays in the order of the entry ids, ends with the operation undone, and returns
  nothing.
\<close>

theorem C7_replay_is_not_in_timestamp_order:
  "fst (all_user_operations skewed_app ''minnie65'' False ''u'' 0 demo_state) = Inr ([], []) \<and>
   user_operations_by_timestamp skewed_log ''u'' = ([1], [10])"
  by (simp add: spec_skewed all_user_operations_def get_cg_table_id get_cg_body_def
        startswith_def skewed_app_def demo_app_def demo_state_def demo_graph_def body_skewed)

section \<open>The undone set of the operation log\<close>

lemma float64_exact: "unat w < 2 ^ 53 \<Longrightarrow> float64 w = unat w"
  by (simp add: float64_def)

lemma float64_inj: "unat a < 2 ^ 53 \<Longrightarrow> unat b < 2 ^ 53 \<Longrightarrow> (float64 a = float64 b) = (a = b)"
  by (simp add: float64_exact word_unat_eq_iff)

lemma set_update_undone:
  "n \<in> set (update_undone e u) \<longleftrightarrow>
     (n \<in> set u \<or> (should_check e \<and> (\<exists>x. UndoOperationID e = Some x \<and> float64 x = n))) \<and>
     \<not> (should_check e \<and> (\<exists>x. RedoOperationID e = Some x \<and> float64 x = n))"
  by (auto simp: update_undone_def Let_def split: option.splits)

lemma scan_entries_valid:
  "scan_entries log target ids (v, ts, u) = Inr (v', ts', u') \<Longrightarrow>
   v' = v @ filter (authored_by log target) ids \<and>
   ts' = ts @ map (timestamp_of log) (filter (authored_by log target) ids)"
proof (induction ids arbitrary: v ts u)
  case Nil
  then show ?case by simp
next
  case (Cons i ids)
  then obtain e where e: "map_of log i = Some e"
    by (auto split: option.splits)
  with Cons.prems have
    "scan_entries log target ids
       (if entry_user e = target then v @ [i] else v,
        if entry_user e = target then ts @ [entry_timestamp e] else ts,
        update_undone e u) = Inr (v', ts', u')"
    by simp
  from Cons.IH [OF this] e show ?case
    by (simp add: authored_by_def timestamp_of_def)
qed

lemma scan_entries_returns:
  "set ids \<subseteq> fst ` set log \<Longrightarrow> \<exists>r. scan_entries log target ids acc = Inr r"
proof (induction ids arbitrary: acc)
  case Nil
  then show ?case by (cases acc) simp
next
  case (Cons i ids)
  then obtain e where e: "map_of log i = Some e"
    by (metis list.set_intros(1) map_of_eq_None_iff not_Some_eq subsetD)
  obtain v ts u where acc: "acc = (v, ts, u)" by (rule prod_cases3)
  from Cons e show ?case by (simp add: acc)
qed

lemma scan_entries_undone:
  "sorted_wrt (<) ids \<Longrightarrow> scan_entries log target ids (v, ts, u) = Inr (v', ts', u') \<Longrightarrow>
   n \<in> set u' \<longleftrightarrow>
     (n \<in> set u \<and> (\<forall>r \<in> set ids. \<not> redoes log r n)) \<or>
     (\<exists>w \<in> set ids. undoes log w n \<and> (\<forall>r \<in> set ids. redoes log r n \<longrightarrow> r < w))"
proof (induction ids arbitrary: v ts u)
  case Nil
  then show ?case by simp
next
  case (Cons i ids)
  then obtain e where e: "map_of log i = Some e"
    by (auto split: option.splits)
  with Cons.prems have s:
    "scan_entries log target ids
       (if entry_user e = target then v @ [i] else v,
        if entry_user e = target then ts @ [entry_timestamp e] else ts,
        update_undone e u) = Inr (v', ts', u')"
    by simp
  have sorted: "sorted_wrt (<) ids" and less: "\<forall>r \<in> set ids. i < r"
    using Cons.prems(1) by auto
  have ih: "n \<in> set u' \<longleftrightarrow>
     (n \<in> set (update_undone e u) \<and> (\<forall>r \<in> set ids. \<not> redoes log r n)) \<or>
     (\<exists>w \<in> set ids. undoes log w n \<and> (\<forall>r \<in> set ids. redoes log r n \<longrightarrow> r < w))"
    by (rule Cons.IH [OF sorted s])
  have step: "n \<in> set (update_undone e u) \<longleftrightarrow>
      (n \<in> set u \<or> undoes log i n) \<and> \<not> redoes log i n"
    using e by (simp add: set_update_undone undoes_def redoes_def is_undo_of_def is_redo_of_def)
  show ?case
  proof
    assume "n \<in> set u'"
    with ih step less show
      "(n \<in> set u \<and> (\<forall>r \<in> set (i # ids). \<not> redoes log r n)) \<or>
       (\<exists>w \<in> set (i # ids). undoes log w n \<and>
          (\<forall>r \<in> set (i # ids). redoes log r n \<longrightarrow> r < w))"
      by (simp; blast)
  next
    assume a: "(n \<in> set u \<and> (\<forall>r \<in> set (i # ids). \<not> redoes log r n)) \<or>
       (\<exists>w \<in> set (i # ids). undoes log w n \<and>
          (\<forall>r \<in> set (i # ids). redoes log r n \<longrightarrow> r < w))"
    then show "n \<in> set u'"
    proof
      assume "n \<in> set u \<and> (\<forall>r \<in> set (i # ids). \<not> redoes log r n)"
      then show ?thesis using ih step by simp
    next
      assume "\<exists>w \<in> set (i # ids). undoes log w n \<and>
          (\<forall>r \<in> set (i # ids). redoes log r n \<longrightarrow> r < w)"
      then obtain w where w: "w \<in> set (i # ids)" "undoes log w n"
        "\<forall>r \<in> set (i # ids). redoes log r n \<longrightarrow> r < w" by blast
      show ?thesis
      proof (cases "w = i")
        case True
        then have "\<not> redoes log i n" using w(3) by auto
        moreover have "\<forall>r \<in> set ids. \<not> redoes log r n"
          using w(3) less True by (metis list.set_intros(2) not_less_iff_gr_or_eq)
        ultimately show ?thesis using ih step w(2) True by simp
      next
        case False
        then have "w \<in> set ids" using w(1) by simp
        then show ?thesis using ih w by auto
      qed
    qed
  qed
qed


lemma filter_entries_eq:
  "set valid \<subseteq> fst ` set log \<Longrightarrow>
   filter_entries log undone valid =
     Inr (filter (\<lambda>i. \<not> undo_or_redo_record log i \<and> float64 i \<notin> set undone) valid,
          map (timestamp_of log)
            (filter (\<lambda>i. \<not> undo_or_redo_record log i \<and> float64 i \<notin> set undone) valid))"
proof (induction valid)
  case Nil
  then show ?case by simp
next
  case (Cons i valid)
  then obtain e where e: "map_of log i = Some e"
    by (metis list.set_intros(1) map_of_eq_None_iff not_Some_eq subsetD)
  from Cons e show ?case
    by (simp add: undo_or_redo_record_def timestamp_of_def)
qed

lemma set_entry_ids: "set (entry_ids log) = fst ` set log"
  by (simp add: entry_ids_def)

lemma entry_ids_strict: "sorted_wrt (<) (entry_ids log)"
  by (simp add: entry_ids_def strict_sorted_iff)

lemma ids_exact_key: "ids_exact log \<Longrightarrow> i \<in> fst ` set log \<Longrightarrow> unat i < 2 ^ 53"
  by (auto simp: ids_exact_def list_all_iff)

lemma ids_exact_row:
  assumes "ids_exact log" and "map_of log w = Some e"
  shows "(case UndoOperationID e of None \<Rightarrow> True | Some u \<Rightarrow> unat u < 2 ^ 53) \<and>
         (case RedoOperationID e of None \<Rightarrow> True | Some r \<Rightarrow> unat r < 2 ^ 53)"
proof -
  have "(w, e) \<in> set log" using assms(2) by (rule map_of_SomeD)
  then have "(\<lambda>row. unat (fst row) < 2 ^ 53 \<and>
                 (case UndoOperationID (snd row) of None \<Rightarrow> True | Some u \<Rightarrow> unat u < 2 ^ 53) \<and>
                 (case RedoOperationID (snd row) of None \<Rightarrow> True | Some r \<Rightarrow> unat r < 2 ^ 53))
          (w, e)"
    using assms(1) unfolding ids_exact_def list_all_iff by blast
  then show ?thesis by simp
qed

lemma ids_exact_undo: "ids_exact log \<Longrightarrow> is_undo_of log w x \<Longrightarrow> unat x < 2 ^ 53"
proof -
  assume a: "ids_exact log" and b: "is_undo_of log w x"
  from b obtain e where e: "map_of log w = Some e" "UndoOperationID e = Some x"
    by (auto simp: is_undo_of_def split: option.splits)
  from ids_exact_row [OF a e(1)] e(2) show ?thesis by simp
qed

lemma ids_exact_redo: "ids_exact log \<Longrightarrow> is_redo_of log w x \<Longrightarrow> unat x < 2 ^ 53"
proof -
  assume a: "ids_exact log" and b: "is_redo_of log w x"
  from b obtain e where e: "map_of log w = Some e" "RedoOperationID e = Some x"
    by (auto simp: is_redo_of_def split: option.splits)
  from ids_exact_row [OF a e(1)] e(2) show ?thesis by simp
qed

lemma undoes_exact:
  "ids_exact log \<Longrightarrow> i \<in> fst ` set log \<Longrightarrow> undoes log w (float64 i) = is_undo_of log w i"
  unfolding undoes_def
  using float64_inj ids_exact_key ids_exact_undo by blast

lemma redoes_exact:
  "ids_exact log \<Longrightarrow> i \<in> fst ` set log \<Longrightarrow> redoes log w (float64 i) = is_redo_of log w i"
  unfolding redoes_def
  using float64_inj ids_exact_key ids_exact_redo by blast

lemma scan_entries_effectively_undone:
  assumes "ids_exact log" and "i \<in> fst ` set log"
    and "scan_entries log target (entry_ids log) ([], [], []) = Inr (v, ts, u)"
  shows "float64 i \<in> set u \<longleftrightarrow> effectively_undone log i"
  using scan_entries_undone [OF entry_ids_strict assms(3), of "float64 i"]
  by (simp add: effectively_undone_def undoes_exact [OF assms(1,2)] redoes_exact [OF assms(1,2)])

lemma all_user_operations_body_eq:
  assumes "ids_exact log"
  shows "all_user_operations_body log target False =
     Inr (filter (\<lambda>i. authored_by log target i \<and> \<not> undo_or_redo_record log i \<and>
                        \<not> effectively_undone log i) (entry_ids log),
          map (timestamp_of log)
            (filter (\<lambda>i. authored_by log target i \<and> \<not> undo_or_redo_record log i \<and>
                          \<not> effectively_undone log i) (entry_ids log)))"
proof -
  obtain v ts u where r: "scan_entries log target (entry_ids log) ([], [], []) = Inr (v, ts, u)"
    using scan_entries_returns [of "entry_ids log" log target "([], [], [])"]
    by (auto simp: set_entry_ids)
  have v: "v = filter (authored_by log target) (entry_ids log)"
    using scan_entries_valid [OF r] by simp
  then have sub: "set v \<subseteq> fst ` set log"
    using set_entry_ids by auto
  have und: "\<And>i. i \<in> set v \<Longrightarrow> (float64 i \<notin> set u) = (\<not> effectively_undone log i)"
    using scan_entries_effectively_undone [OF assms _ r] sub by blast
  have "filter (\<lambda>i. \<not> undo_or_redo_record log i \<and> float64 i \<notin> set u) v =
        filter (\<lambda>i. \<not> undo_or_redo_record log i \<and> \<not> effectively_undone log i) v"
    by (rule filter_cong) (use und in auto)
  then have "filter_entries log u v =
     Inr (filter (\<lambda>i. \<not> undo_or_redo_record log i \<and> \<not> effectively_undone log i) v,
          map (timestamp_of log)
            (filter (\<lambda>i. \<not> undo_or_redo_record log i \<and> \<not> effectively_undone log i) v))"
    using filter_entries_eq [OF sub, of u] by simp
  moreover have "filter (\<lambda>i. \<not> undo_or_redo_record log i \<and> \<not> effectively_undone log i) v =
      filter (\<lambda>i. authored_by log target i \<and> \<not> undo_or_redo_record log i \<and>
                        \<not> effectively_undone log i) (entry_ids log)"
    by (simp add: v conj_commute conj_left_commute)
  ultimately show ?thesis
    using r by (simp add: all_user_operations_body_def entry_ids_def [symmetric])
qed

text \<open>
  C7, amended. For a served table and a log whose ids are all below \<open>2^53\<close>,
  \<open>all_user_operations\<close> with \<open>include_undone\<close> false returns, in ascending id order and
  each with its timestamp, exactly the entries that are authored by the target user,
  are no undo or redo records, and are not effectively undone, where undo and redo
  records of successful entries count in the order of their operation ids: an
  operation is undone when a successful undo record names it and no successful redo
  record with the same or a larger id names it.
\<close>

theorem C7_user_operations_in_id_order:
  assumes "get_cg_body ap t st = (Inr cg, cached)"
    and "read_log_entries cg (events cached) start = Inr log"
    and "ids_exact log"
    and "kept = filter (\<lambda>i. authored_by log target i \<and> \<not> undo_or_redo_record log i \<and>
                              \<not> effectively_undone log i) (entry_ids log)"
  shows "all_user_operations ap t False target start st =
           (Inr (kept, map (timestamp_of log) kept), cached)"
  using assms
  by (simp add: all_user_operations_def get_cg_table_id all_user_operations_body_eq)


lemma entry_ids_demo_log: "entry_ids demo_log = [1, 2, 3]"
  by (simp add: entry_ids_def demo_log_def)

lemma undone_demo: "effectively_undone demo_log 1 \<and> \<not> effectively_undone demo_log 2"
  by (simp add: effectively_undone_def entry_ids_demo_log is_undo_of_def is_redo_of_def)
     (simp add: demo_log_def plain_entry_def should_check_def)

lemma kept_demo:
  "filter (\<lambda>i. authored_by demo_log ''u'' i \<and> \<not> undo_or_redo_record demo_log i \<and>
                 \<not> effectively_undone demo_log i) (entry_ids demo_log) = [2]"
  using undone_demo
  by (simp add: entry_ids_demo_log authored_by_def undo_or_redo_record_def)
     (simp add: demo_log_def plain_entry_def)

lemma ids_exact_demo: "ids_exact demo_log"
  by (simp add: ids_exact_def demo_log_def plain_entry_def)

theorem C7_user_operations_in_id_order_witness:
  "ids_exact demo_log \<and> effectively_undone demo_log 1 \<and> \<not> effectively_undone demo_log 2 \<and>
   all_user_operations demo_app ''minnie65'' False ''u'' 0 demo_state =
     (Inr ([2], [20]), \<lparr>CACHE = [(''minnie65'', demo_graph)], events = []\<rparr>)"
proof -
  have r: "read_log_entries demo_graph
             (events \<lparr>CACHE = [(''minnie65'', demo_graph)], events = []\<rparr>) 0 = Inr demo_log"
    by (simp add: demo_graph_def)
  have t: "timestamp_of demo_log 2 = 20"
    by (simp add: timestamp_of_def demo_log_def plain_entry_def)
  show ?thesis
    using C7_user_operations_in_id_order [OF get_cg_demo r ids_exact_demo kept_demo [symmetric]]
      ids_exact_demo undone_demo
    by (simp add: t)
qed

section \<open>Further properties of the handlers and the decoder\<close>

text \<open>
  The distance test of \<open>handle_merge\<close> (lines 375-379): for chunk coordinates of three
  components, \<open>np.any(np.abs(chunk_coord_delta) > 3)\<close> holds exactly when the two chunks
  are more than 3 apart on some axis, that is, when their Chebyshev distance exceeds 3.
\<close>

theorem X1_merge_distance_test:
  assumes "get_chunk_coordinates cg a = [xa, ya, za]"
    and "get_chunk_coordinates cg b = [xb, yb, zb]"
  shows "too_far (chunk_coord_delta cg a b) \<longleftrightarrow>
           3 < max \<bar>xa - xb\<bar> (max \<bar>ya - yb\<bar> \<bar>za - zb\<bar>)"
  using assms by (auto simp: chunk_coord_delta_def too_far_def)

theorem X1_merge_distance_test_witness:
  "get_chunk_coordinates demo_graph 1 = [1, 0, 0] \<and>
   get_chunk_coordinates demo_graph 11 = [11, 0, 0] \<and>
   get_chunk_coordinates demo_graph 4 = [4, 0, 0] \<and>
   too_far (chunk_coord_delta demo_graph 1 11) \<and>
   \<not> too_far (chunk_coord_delta demo_graph 1 4)"
  using X1_merge_distance_test [where cg = demo_graph and a = 1 and b = 11
      and xa = 1 and ya = 0 and za = 0 and xb = 11 and yb = 0 and zb = 0]
    X1_merge_distance_test [where cg = demo_graph and a = 1 and b = 4
      and xa = 1 and ya = 0 and za = 0 and xb = 4 and yb = 0 and zb = 0]
  by (simp add: demo_graph_def)

text \<open>
  From the point where they hold a graph handle, \<open>handle_merge\<close> and \<open>handle_split\<close>
  raise \<open>AttributeError\<close> at the supervoxel lookup (lines 373 and 445): no edit method
  is called, nothing is published, and the state is unchanged.
\<close>

theorem X5_lookup_is_not_defined:
  "handle_merge_body ap cg t allow uid p nodes st = (Inl AttributeError, st) \<and>
   handle_split_body ap cg t uid p mincut sources sinks st = (Inl AttributeError, st)"
  by (simp add: handle_merge_body_def handle_split_body_def handle_supervoxel_id_lookup_def)

text \<open>
  \<open>from_log_record\<close> on a record that holds the five columns it reads first: the
  operation is decided by \<open>AddedEdge\<close> (with \<open>Affinity\<close>), else by \<open>RemovedEdge\<close> with
  \<open>multicut_as_split\<close> and \<open>BoundingBoxOffset\<close>, and a record with neither edge column
  raises \<open>PreconditionError\<close>. A decoded multicut starts with \<open>removed_edges\<close> unset:
  the logged edges are not passed on.
\<close>

theorem X2_from_log_record_branches:
  assumes "UserID r = Some uid" and "SourceID r = Some src" and "SinkID r = Some snk"
    and "SourceCoordinate r = Some sc" and "SinkCoordinate r = Some kc"
  shows "(\<forall>es aff. AddedEdge r = Some es \<and> Affinity r = Some aff \<longrightarrow>
            from_log_record cg r mas =
              MergeOperation_init cg uid es (Some sc) (Some kc) (Some aff)) \<and>
         (\<forall>es. AddedEdge r = None \<and> RemovedEdge r = Some es \<and>
               (mas \<or> BoundingBoxOffset r = None) \<longrightarrow>
            from_log_record cg r mas = SplitOperation_init cg uid es (Some sc) (Some kc)) \<and>
         (\<forall>es bbox. AddedEdge r = None \<and> RemovedEdge r = Some es \<and> \<not> mas \<and>
               BoundingBoxOffset r = Some bbox \<longrightarrow>
            from_log_record cg r mas =
              MulticutOperation_init cg uid src snk sc kc (Some bbox)) \<and>
         (AddedEdge r = None \<and> RemovedEdge r = None \<longrightarrow>
            from_log_record cg r mas = Inl PreconditionError) \<and>
         (\<forall>bbox self'. MulticutOperation_init cg uid src snk sc kc bbox = Inr self' \<longrightarrow>
            (\<exists>base. self' = MulticutOperation base None bbox))"
  using assms
  by (auto simp: from_log_record_def log_column_def MulticutOperation_init_def
      split: sum.splits)

theorem X2_from_log_record_branches_witness:
  "from_log_record demo_cg (full_record\<lparr>AddedEdge := Some [(1, 2)], Affinity := Some [5]\<rparr>) True =
     MergeOperation_init demo_cg ''u'' [(1, 2)] (Some [[0, 0, 0]]) (Some [[8, 0, 0]]) (Some [5]) \<and>
   from_log_record demo_cg (full_record\<lparr>RemovedEdge := Some [(1, 2)]\<rparr>) False =
     SplitOperation_init demo_cg ''u'' [(1, 2)] (Some [[0, 0, 0]]) (Some [[8, 0, 0]]) \<and>
   from_log_record demo_cg
       (full_record\<lparr>RemovedEdge := Some [(1, 2)], BoundingBoxOffset := Some [240, 240, 24]\<rparr>)
       False =
     Inr (MulticutOperation
            \<lparr>user_id = ''u'', source_ids = Some [1], sink_ids = Some [2],
             source_coords = Some [[0, 0, 0]], sink_coords = Some [[8, 0, 0]]\<rparr>
            None (Some [240, 240, 24])) \<and>
   from_log_record demo_cg full_record True = Inl PreconditionError"
  using X2_from_log_record_branches [where cg = demo_cg and uid = "''u''" and src = "[1]"
      and snk = "[2]" and sc = "[[0, 0, 0]]" and kc = "[[8, 0, 0]]" and mas = True
      and r = "full_record\<lparr>AddedEdge := Some [(1, 2)], Affinity := Some [5]\<rparr>"]
    X2_from_log_record_branches [where cg = demo_cg and uid = "''u''" and src = "[1]"
      and snk = "[2]" and sc = "[[0, 0, 0]]" and kc = "[[8, 0, 0]]" and mas = False
      and r = "full_record\<lparr>RemovedEdge := Some [(1, 2)]\<rparr>"]
    X2_from_log_record_branches [where cg = demo_cg and uid = "''u''" and src = "[1]"
      and snk = "[2]" and sc = "[[0, 0, 0]]" and kc = "[[8, 0, 0]]" and mas = False
      and r = "full_record\<lparr>RemovedEdge := Some [(1, 2)],
                 BoundingBoxOffset := Some [240, 240, 24]\<rparr>"]
    X2_from_log_record_branches [where cg = demo_cg and uid = "''u''" and src = "[1]"
      and snk = "[2]" and sc = "[[0, 0, 0]]" and kc = "[[8, 0, 0]]" and mas = True
      and r = full_record]
  by (simp add: full_record_def no_columns_def MulticutOperation_init_def
        GraphEditOperation_init_def demo_cg_def)

lemma get_cg_body_again:
  "get_cg_body ap t st = (Inr cg, cached) \<Longrightarrow> get_cg_body ap t cached = (Inr cg, cached)"
  by (auto simp: get_cg_body_def split: if_splits option.splits sum.splits)

lemma rollback_loop_quiet:
  "quiet_undo cg \<Longrightarrow>
   rollback_loop cg target ops st =
     (Inr (), st\<lparr>events := events st @ map (\<lambda>op. Edit (UndoOperation target (fst op))) ops\<rparr>)"
proof (induction ops arbitrary: st)
  case Nil
  then show ?case by simp
next
  case (Cons op ops)
  obtain ret where "run_edit cg (events st) (UndoOperation target (fst op)) = Inr ret"
      "new_lvl2_ids ret = []"
    using Cons.prems unfolding quiet_undo_def by blast
  then show ?case
    using Cons.IH [OF Cons.prems] by (simp add: Let_def)
qed

lemma descending_sort:
  "sorted_wrt (\<lambda>a b. snd b \<le> snd a) (sort_key (\<lambda>op. - snd op) (ops :: ('a \<times> int) list))"
proof -
  have "sorted (map (\<lambda>op. - snd op) (sort_key (\<lambda>op. - snd op) ops))"
    by (rule sorted_sort_key)
  then show ?thesis by (simp add: sorted_wrt_map)
qed

text \<open>
  \<open>handle_rollback\<close> when every undo succeeds without new level-2 ids (so line 574 is
  never reached): each still-effective operation of the target user is undone once,
  in descending order of the timestamps, and the user's operation list is returned.
\<close>

theorem X3_rollback_without_new_ids:
  assumes "get_cg_body ap t st = (Inr cg, cached)"
    and "read_log_entries cg (events cached) start = Inr log"
    and "ids_exact log"
    and "quiet_undo cg"
    and "kept = filter (\<lambda>i. authored_by log target i \<and> \<not> undo_or_redo_record log i \<and>
                              \<not> effectively_undone log i) (entry_ids log)"
    and "ops = sort_key (\<lambda>op. - snd op) (zip kept (map (timestamp_of log) kept))"
  shows "handle_rollback ap t target start st =
           (Inr (kept, map (timestamp_of log) kept),
            cached\<lparr>events := events cached @
                      map (\<lambda>op. Edit (UndoOperation target (fst op))) ops\<rparr>) \<and>
         set ops = set (zip kept (map (timestamp_of log) kept)) \<and>
         length ops = length kept \<and>
         sorted_wrt (\<lambda>a b. snd b \<le> snd a) ops"
proof -
  have a: "all_user_operations ap t False target start cached =
      (Inr (kept, map (timestamp_of log) kept), cached)"
    using all_user_operations_body_eq [OF assms(3), of target] assms(2,5)
      get_cg_body_again [OF assms(1)]
    by (simp add: all_user_operations_def get_cg_table_id)
  have b: "handle_rollback ap t target start st =
           (Inr (kept, map (timestamp_of log) kept),
            cached\<lparr>events := events cached @
                      map (\<lambda>op. Edit (UndoOperation target (fst op))) ops\<rparr>)"
    using assms(1,6) a rollback_loop_quiet [OF assms(4)]
    by (simp add: handle_rollback_def get_cg_table_id)
  have c: "set ops = set (zip kept (map (timestamp_of log) kept))" "length ops = length kept"
    using assms(6) by simp_all
  have d: "sorted_wrt (\<lambda>a b. snd b \<le> snd a) ops"
    unfolding assms(6) by (rule descending_sort)
  from b c d show ?thesis by blast
qed

lemma entry_ids_quiet: "entry_ids quiet_log = [1, 2]"
  by (simp add: entry_ids_def quiet_log_def)

lemma kept_quiet:
  "filter (\<lambda>i. authored_by quiet_log ''u'' i \<and> \<not> undo_or_redo_record quiet_log i \<and>
                 \<not> effectively_undone quiet_log i) (entry_ids quiet_log) = [1, 2]"
  by (simp add: entry_ids_quiet authored_by_def undo_or_redo_record_def effectively_undone_def
        is_undo_of_def)
     (simp add: quiet_log_def plain_entry_def)

lemma ops_quiet:
  "sort_key (\<lambda>op. - snd op) (zip [1, 2] (map (timestamp_of quiet_log) [1, 2])) =
     [(2::operation_id, 20), (1, 10)]"
  by (simp add: timestamp_of_def quiet_log_def plain_entry_def)

theorem X3_rollback_without_new_ids_witness:
  "quiet_undo quiet_graph \<and> ids_exact quiet_log \<and>
   handle_rollback quiet_app ''minnie65'' ''u'' 0 demo_state =
     (Inr ([1, 2], [10, 20]),
      \<lparr>CACHE = [(''minnie65'', quiet_graph)],
       events = [Edit (UndoOperation ''u'' 2), Edit (UndoOperation ''u'' 1)]\<rparr>)"
proof -
  have g: "get_cg_body quiet_app ''minnie65'' demo_state =
      (Inr quiet_graph, \<lparr>CACHE = [(''minnie65'', quiet_graph)], events = []\<rparr>)"
    by (simp add: get_cg_body_def startswith_def quiet_app_def demo_app_def demo_state_def)
  have r: "read_log_entries quiet_graph
             (events \<lparr>CACHE = [(''minnie65'', quiet_graph)], events = []\<rparr>) 0 = Inr quiet_log"
    by (simp add: quiet_graph_def demo_graph_def)
  have x: "ids_exact quiet_log"
    by (simp add: ids_exact_def quiet_log_def plain_entry_def)
  have q: "quiet_undo quiet_graph"
    by (simp add: quiet_undo_def quiet_graph_def demo_graph_def)
  have t: "timestamp_of quiet_log 1 = 10" "timestamp_of quiet_log 2 = 20"
    by (simp_all add: timestamp_of_def quiet_log_def plain_entry_def)
  show ?thesis
    using X3_rollback_without_new_ids [OF g r x q kept_quiet [symmetric] ops_quiet [symmetric]]
      x q
    by (simp add: t)
qed

lemma map_filter_keys:
  "set ids \<subseteq> fst ` set log \<Longrightarrow>
   List.map_filter (\<lambda>i. map_option (Pair i) (map_of log i)) ids =
     map (\<lambda>i. (i, the (map_of log i))) ids"
proof (induction ids)
  case Nil
  then show ?case by simp
next
  case (Cons i ids)
  then obtain e where "map_of log i = Some e"
    by (metis list.set_intros(1) map_of_eq_None_iff not_Some_eq subsetD)
  with Cons show ?case by simp
qed

lemma rows_by_id_map: "rows_by_id log = map (\<lambda>i. (i, the (map_of log i))) (entry_ids log)"
  unfolding rows_by_id_def by (rule map_filter_keys) (simp add: set_entry_ids)

lemma key_entry: "i \<in> set (entry_ids log) \<Longrightarrow> \<exists>e. map_of log i = Some e"
  by (metis map_of_eq_None_iff not_Some_eq set_entry_ids)

lemma rows_timestamps:
  "map (\<lambda>row. entry_timestamp (snd row)) (rows_by_id log) = map (timestamp_of log) (entry_ids log)"
proof -
  have "entry_timestamp (the (map_of log i)) = timestamp_of log i"
    if mem: "i \<in> set (entry_ids log)" for i
  proof -
    obtain e where "map_of log i = Some e" using key_entry [OF mem] by blast
    then show ?thesis by (simp add: timestamp_of_def)
  qed
  then show ?thesis unfolding rows_by_id_map by simp
qed

lemma by_time_is_by_id:
  "timestamps_follow_ids log \<Longrightarrow>
   sort_key (\<lambda>row. entry_timestamp (snd row)) (rows_by_id log) = rows_by_id log"
  by (rule sort_key_id_if_sorted) (simp add: rows_timestamps timestamps_follow_ids_def)

lemma replay_undone:
  "sorted_wrt (<) ids \<Longrightarrow> set ids \<subseteq> fst ` set log \<Longrightarrow>
   x \<in> set (replay (map (\<lambda>i. the (map_of log i)) ids) undone) \<longleftrightarrow>
     (x \<in> set undone \<and> (\<forall>r \<in> set ids. \<not> is_redo_of log r x)) \<or>
     (\<exists>w \<in> set ids. is_undo_of log w x \<and> (\<forall>r \<in> set ids. is_redo_of log r x \<longrightarrow> r < w))"
proof (induction ids arbitrary: undone)
  case Nil
  then show ?case by simp
next
  case (Cons i ids)
  obtain e where e: "map_of log i = Some e"
    using Cons.prems(2) by (metis list.set_intros(1) map_of_eq_None_iff not_Some_eq subsetD)
  define undone' where "undone' =
       (if should_check e
        then (let marked = (case UndoOperationID e of
                              Some u \<Rightarrow> u # undone | None \<Rightarrow> undone)
              in case RedoOperationID e of
                   Some r \<Rightarrow> removeAll r marked | None \<Rightarrow> marked)
        else undone)"
  have step: "x \<in> set undone' \<longleftrightarrow> (x \<in> set undone \<or> is_undo_of log i x) \<and> \<not> is_redo_of log i x"
    using e by (auto simp: undone'_def is_undo_of_def is_redo_of_def Let_def split: option.splits)
  have sorted: "sorted_wrt (<) ids" and less: "\<forall>r \<in> set ids. i < r"
    and sub: "set ids \<subseteq> fst ` set log"
    using Cons.prems by auto
  have ih: "x \<in> set (replay (map (\<lambda>i. the (map_of log i)) ids) undone') \<longleftrightarrow>
     (x \<in> set undone' \<and> (\<forall>r \<in> set ids. \<not> is_redo_of log r x)) \<or>
     (\<exists>w \<in> set ids. is_undo_of log w x \<and> (\<forall>r \<in> set ids. is_redo_of log r x \<longrightarrow> r < w))"
    by (rule Cons.IH [OF sorted sub])
  have unfold: "replay (map (\<lambda>i. the (map_of log i)) (i # ids)) undone =
      replay (map (\<lambda>i. the (map_of log i)) ids) undone'"
    using e by (simp add: undone'_def)
  show ?case
    unfolding unfold ih step
  proof
    assume "((x \<in> set undone \<or> is_undo_of log i x) \<and> \<not> is_redo_of log i x) \<and>
        (\<forall>r\<in>set ids. \<not> is_redo_of log r x) \<or>
        (\<exists>w\<in>set ids. is_undo_of log w x \<and> (\<forall>r\<in>set ids. is_redo_of log r x \<longrightarrow> r < w))"
    with less show "x \<in> set undone \<and> (\<forall>r\<in>set (i # ids). \<not> is_redo_of log r x) \<or>
        (\<exists>w\<in>set (i # ids). is_undo_of log w x \<and>
           (\<forall>r\<in>set (i # ids). is_redo_of log r x \<longrightarrow> r < w))"
      by (simp; blast)
  next
    assume a: "x \<in> set undone \<and> (\<forall>r\<in>set (i # ids). \<not> is_redo_of log r x) \<or>
        (\<exists>w\<in>set (i # ids). is_undo_of log w x \<and>
           (\<forall>r\<in>set (i # ids). is_redo_of log r x \<longrightarrow> r < w))"
    then show "((x \<in> set undone \<or> is_undo_of log i x) \<and> \<not> is_redo_of log i x) \<and>
        (\<forall>r\<in>set ids. \<not> is_redo_of log r x) \<or>
        (\<exists>w\<in>set ids. is_undo_of log w x \<and> (\<forall>r\<in>set ids. is_redo_of log r x \<longrightarrow> r < w))"
    proof
      assume "x \<in> set undone \<and> (\<forall>r\<in>set (i # ids). \<not> is_redo_of log r x)"
      then show ?thesis by simp
    next
      assume "\<exists>w\<in>set (i # ids). is_undo_of log w x \<and>
           (\<forall>r\<in>set (i # ids). is_redo_of log r x \<longrightarrow> r < w)"
      then obtain w where w: "w \<in> set (i # ids)" "is_undo_of log w x"
        "\<forall>r \<in> set (i # ids). is_redo_of log r x \<longrightarrow> r < w" by blast
      show ?thesis
      proof (cases "w = i")
        case True
        then have "\<not> is_redo_of log i x" using w(3) by auto
        moreover have "\<forall>r \<in> set ids. \<not> is_redo_of log r x"
          using w(3) less True by (metis list.set_intros(2) not_less_iff_gr_or_eq)
        ultimately show ?thesis using w(2) True by simp
      next
        case False
        then have "w \<in> set ids" using w(1) by simp
        then show ?thesis using w by auto
      qed
    qed
  qed
qed

lemma replay_effectively_undone:
  "x \<in> set (replay (map snd (rows_by_id log)) []) \<longleftrightarrow> effectively_undone log x"
  using replay_undone [OF entry_ids_strict, of log log x "[]"]
  by (simp add: rows_by_id_map set_entry_ids effectively_undone_def comp_def)

text \<open>
  When the timestamps of the log do not decrease with the entry ids (and the ids are
  below \<open>2^53\<close>), the replay in id order that the code performs gives the result of
  the replay in timestamp order.
\<close>

theorem X4_timestamp_order_when_monotone:
  assumes "ids_exact log" and "timestamps_follow_ids log"
  shows "all_user_operations_body log target False =
           Inr (user_operations_by_timestamp log target)"
proof -
  let ?P = "\<lambda>i. authored_by log target i \<and> \<not> undo_or_redo_record log i \<and>
                 \<not> effectively_undone log i"
  let ?Q = "\<lambda>row. entry_user (snd row) = target \<and> UndoOperationID (snd row) = None \<and>
                   RedoOperationID (snd row) = None \<and>
                   fst row \<notin> set (replay (map snd (rows_by_id log)) [])"
  let ?g = "\<lambda>i. (i, the (map_of log i))"
  let ?R = "\<lambda>row. entry_user (snd row) = target \<and> UndoOperationID (snd row) = None \<and>
                   RedoOperationID (snd row) = None \<and> \<not> effectively_undone log (fst row)"
  have pq: "?R (?g i) = ?P i" if mem: "i \<in> set (entry_ids log)" for i
  proof -
    obtain e where "map_of log i = Some e" using key_entry [OF mem] by blast
    then show ?thesis
      by (simp add: authored_by_def undo_or_redo_record_def)
  qed
  have f1: "filter ?Q (rows_by_id log) = filter ?R (rows_by_id log)"
    by (simp add: replay_effectively_undone)
  have f2: "filter ?R (map ?g (entry_ids log)) =
            map ?g (filter (\<lambda>i. ?R (?g i)) (entry_ids log))"
    by (simp add: filter_map comp_def)
  have f3: "filter (\<lambda>i. ?R (?g i)) (entry_ids log) = filter ?P (entry_ids log)"
    by (rule filter_cong) (use pq in auto)
  have f: "filter ?Q (rows_by_id log) = map ?g (filter ?P (entry_ids log))"
    using f1 f2 f3 by (simp only: rows_by_id_map)
  have "entry_timestamp (the (map_of log i)) = timestamp_of log i"
    if mem: "i \<in> set (entry_ids log)" for i
  proof -
    obtain e where "map_of log i = Some e" using key_entry [OF mem] by blast
    then show ?thesis by (simp add: timestamp_of_def)
  qed
  then have t: "map (\<lambda>row. entry_timestamp (snd row)) (map ?g (filter ?P (entry_ids log))) =
           map (timestamp_of log) (filter ?P (entry_ids log))"
    by simp
  have "user_operations_by_timestamp log target =
      (filter ?P (entry_ids log), map (timestamp_of log) (filter ?P (entry_ids log)))"
    unfolding user_operations_by_timestamp_def by_time_is_by_id [OF assms(2)] Let_def f t
    by (simp add: comp_def)
  then show ?thesis
    using all_user_operations_body_eq [OF assms(1), of target] by simp
qed

theorem X4_timestamp_order_when_monotone_witness:
  "ids_exact demo_log \<and> timestamps_follow_ids demo_log \<and>
   all_user_operations_body demo_log ''u'' False = Inr ([2], [20]) \<and>
   user_operations_by_timestamp demo_log ''u'' = ([2], [20])"
proof -
  have m: "timestamps_follow_ids demo_log"
    by (simp add: timestamps_follow_ids_def entry_ids_demo_log timestamp_of_def)
       (simp add: demo_log_def plain_entry_def)
  show ?thesis
    using X4_timestamp_order_when_monotone [OF ids_exact_demo m, of "''u''"] m ids_exact_demo
      body_demo
    by simp
qed

end
